theory Spec2Isabelle
  imports Complex_Main
begin

section \<open>Values of a price snapshot\<close>

text \<open>
  A snapshot is the document \<^verbatim>\<open>json.load\<close> returns: \<^verbatim>\<open>null\<close>, booleans, integers,
  decimals, strings, arrays and objects. An object is an association list read with
  \<open>map_of\<close> (the first binding of a key is the one the dictionary holds).

  Python's \<^verbatim>\<open>float\<close> is modelled by \<open>real\<close>: the arithmetic of the formulas is exact,
  so rounding error, infinities and NaN are outside the model. The conversion of an
  integer that does not fit a double is kept, since it raises.
\<close>

datatype pyval =
    PNone
  | PBool bool
  | PInt int
  | PFloat real
  | PStr string
  | PList "pyval list"
  | PDict "(string \<times> pyval) list"

datatype error = AttributeError | TypeError | ValueError | OverflowError

text \<open>A statement that raises ends the function: the rest runs only on \<open>Inr\<close>.\<close>

definition bindE :: "error + 'a \<Rightarrow> ('a \<Rightarrow> error + 'b) \<Rightarrow> error + 'b" where
  "bindE m f = (case m of Inl e \<Rightarrow> Inl e | Inr x \<Rightarrow> f x)"

fun mapE :: "('a \<Rightarrow> error + 'b) \<Rightarrow> 'a list \<Rightarrow> error + 'b list" where
  "mapE f [] = Inr []"
| "mapE f (x # xs) = bindE (f x) (\<lambda>y. bindE (mapE f xs) (\<lambda>ys. Inr (y # ys)))"

subsection \<open>The Python operations the calculator uses\<close>

text \<open>\<^verbatim>\<open>isinstance(v, dict)\<close>\<close>

fun isinstance_dict :: "pyval \<Rightarrow> bool" where
  "isinstance_dict (PDict d) = True"
| "isinstance_dict _ = False"

text \<open>\<^verbatim>\<open>v.get(k, default)\<close>: only a dict has the method.\<close>

fun py_get :: "pyval \<Rightarrow> string \<Rightarrow> pyval \<Rightarrow> error + pyval" where
  "py_get (PDict d) k dflt = Inr (case map_of d k of None \<Rightarrow> dflt | Some v \<Rightarrow> v)"
| "py_get _ k dflt = Inl AttributeError"

text \<open>Truth value of a value, as \<^verbatim>\<open>or\<close> and \<^verbatim>\<open>not\<close> test it.\<close>

fun truthy :: "pyval \<Rightarrow> bool" where
  "truthy PNone = False"
| "truthy (PBool b) = b"
| "truthy (PInt i) = (i \<noteq> 0)"
| "truthy (PFloat r) = (r \<noteq> 0)"
| "truthy (PStr s) = (s \<noteq> [])"
| "truthy (PList xs) = (xs \<noteq> [])"
| "truthy (PDict d) = (d \<noteq> [])"

definition py_or :: "pyval \<Rightarrow> pyval \<Rightarrow> pyval" where
  "py_or a b = (if truthy a then a else b)"

text \<open>\<^verbatim>\<open>v != 0\<close>: numbers and booleans compare by value, anything else differs from 0.\<close>

fun ne_zero :: "pyval \<Rightarrow> bool" where
  "ne_zero (PBool b) = b"
| "ne_zero (PInt i) = (i \<noteq> 0)"
| "ne_zero (PFloat r) = (r \<noteq> 0)"
| "ne_zero _ = True"

text \<open>
  An integer converts to a double unless it rounds to \<open>2 ^ 1024\<close> or beyond, which
  raises OverflowError.
\<close>

definition int_fits :: "int \<Rightarrow> bool" where
  "int_fits i = (\<bar>i\<bar> < 2 ^ 1024 - 2 ^ 970)"

definition int_to_float :: "int \<Rightarrow> error + real" where
  "int_to_float i = (if int_fits i then Inr (real_of_int i) else Inl OverflowError)"

text \<open>
  \<^verbatim>\<open>float(v)\<close>. What the builtin reads from a string is not code of this repository:
  \<open>pf\<close> stands for it (\<open>None\<close> where the builtin raises ValueError).
\<close>

type_synonym str_parser = "string \<Rightarrow> real option"

fun py_float :: "str_parser \<Rightarrow> pyval \<Rightarrow> error + real" where
  "py_float pf (PBool b) = Inr (if b then 1 else 0)"
| "py_float pf (PInt i) = int_to_float i"
| "py_float pf (PFloat r) = Inr r"
| "py_float pf (PStr s) = (case pf s of None \<Rightarrow> Inl ValueError | Some r \<Rightarrow> Inr r)"
| "py_float pf _ = Inl TypeError"

text \<open>The other operand of a float in \<^verbatim>\<open>x * v\<close>: a number, or TypeError.\<close>

fun float_operand :: "pyval \<Rightarrow> error + real" where
  "float_operand (PBool b) = Inr (if b then 1 else 0)"
| "float_operand (PInt i) = int_to_float i"
| "float_operand (PFloat r) = Inr r"
| "float_operand _ = Inl TypeError"

definition float_mul :: "real \<Rightarrow> pyval \<Rightarrow> error + real" where
  "float_mul x v = bindE (float_operand v) (\<lambda>y. Inr (x * y))"

text \<open>An integer operand of \<^verbatim>\<open>*\<close> (a boolean is one).\<close>

fun int_operand :: "pyval \<Rightarrow> int option" where
  "int_operand (PBool b) = Some (if b then 1 else 0)"
| "int_operand (PInt i) = Some i"
| "int_operand _ = None"

text \<open>
  \<^verbatim>\<open>a * b\<close> on snapshot values: integers multiply exactly, a float makes the product a
  float, an integer repeats a string or a list, everything else raises TypeError.
\<close>

definition repeat :: "int \<Rightarrow> 'a list \<Rightarrow> 'a list" where
  "repeat n xs = concat (replicate (nat n) xs)"

fun seq_mul :: "int \<Rightarrow> pyval \<Rightarrow> error + pyval" where
  "seq_mul n (PStr s) = Inr (PStr (repeat n s))"
| "seq_mul n (PList xs) = Inr (PList (repeat n xs))"
| "seq_mul n _ = Inl TypeError"

definition py_mul :: "pyval \<Rightarrow> pyval \<Rightarrow> error + pyval" where
  "py_mul a b =
     (case (int_operand a, int_operand b) of
        (Some i, Some j) \<Rightarrow> Inr (PInt (i * j))
      | (Some i, None) \<Rightarrow>
          (case b of PFloat y \<Rightarrow> bindE (int_to_float i) (\<lambda>x. Inr (PFloat (x * y)))
                   | _ \<Rightarrow> seq_mul i b)
      | (None, Some j) \<Rightarrow>
          (case a of PFloat x \<Rightarrow> bindE (int_to_float j) (\<lambda>y. Inr (PFloat (x * y)))
                   | _ \<Rightarrow> seq_mul j a)
      | (None, None) \<Rightarrow>
          (case (a, b) of (PFloat x, PFloat y) \<Rightarrow> Inr (PFloat (x * y))
                        | _ \<Rightarrow> Inl TypeError))"

text \<open>
  \<^verbatim>\<open>round(x, 0)\<close> on a float: to the nearest whole number, a tie to the even one.
\<close>

definition py_round :: "real \<Rightarrow> real" where
  "py_round x =
     (let f = \<lfloor>x\<rfloor>; d = x - of_int f
      in if d < 1 / 2 then of_int f
         else if 1 / 2 < d then of_int (f + 1)
         else if even f then of_int f else of_int (f + 1))"

section \<open>Global parameters\<close>

definition VAT_RATE :: real where
  "VAT_RATE = 113 / 100"

definition CNY_NGN_OVERRIDE :: "pyval option" where
  "CNY_NGN_OVERRIDE = Some (PInt 216)"

definition LOGISTICS_COST_SEA :: real where
  "LOGISTICS_COST_SEA = 80309"

definition COLTAN_AIR_COST :: real where
  "COLTAN_AIR_COST = 8"

definition SPODUMENE_DISCOUNT :: real where
  "SPODUMENE_DISCOUNT = 6 / 10"

definition LEPIDOLITE_DISCOUNT :: real where
  "LEPIDOLITE_DISCOUNT = 3 / 10"

definition LEPIDOLITE_TONS_PER_CARBONATE :: real where
  "LEPIDOLITE_TONS_PER_CARBONATE = 20"

definition LEPIDOLITE_PROCESSING_COST_CNY :: real where
  "LEPIDOLITE_PROCESSING_COST_CNY = 45000"

definition LEPIDOLITE_BASE_GRADE :: real where
  "LEPIDOLITE_BASE_GRADE = 25 / 10"

section \<open>The calculator\<close>

text \<open>
  The attributes \<^verbatim>\<open>__init__\<close> sets. The date is left out: its default reads the clock,
  and no price depends on it.
\<close>

record calculator =
  price_data :: pyval
  USD_NGN :: pyval
  USD_CNY :: pyval
  CNY_NGN :: pyval
  CNY_NGN_SOURCE :: string
  smm :: pyval

text \<open>\<^verbatim>\<open>r.get("rate", d) if isinstance(r, dict) else r\<close>\<close>

definition rate_of :: "pyval \<Rightarrow> pyval \<Rightarrow> pyval" where
  "rate_of r dflt =
     (case r of PDict d \<Rightarrow> (case map_of d ''rate'' of None \<Rightarrow> dflt | Some v \<Rightarrow> v)
              | _ \<Rightarrow> r)"

text \<open>
  \<^verbatim>\<open>PriceCalculator.__init__\<close>, with the module's override as a parameter \<open>ovr\<close>.
  The first value assigned to \<^verbatim>\<open>self.USD_NGN\<close> is overwritten by the product.
\<close>

definition init_with :: "pyval option \<Rightarrow> pyval \<Rightarrow> error + calculator" where
  "init_with ovr pd =
     bindE (py_get pd ''exchange_rates'' (PDict [])) (\<lambda>exchange_rates.
     bindE (py_get exchange_rates ''usd_ngn'' (PDict [])) (\<lambda>usd_ngn.
     bindE (py_get exchange_rates ''usd_cny'' (PDict [])) (\<lambda>usd_cny.
     bindE (py_get exchange_rates ''cny_ngn'' (PDict [])) (\<lambda>cny_ngn.
       let usd_ngn0 = rate_of usd_ngn (PInt 1487);
           usd_cny1 = rate_of usd_cny (PFloat 7);
           (cny_ngn1, src) =
              (case ovr of
                 Some v \<Rightarrow> (v, ''Manual Override'')
               | None \<Rightarrow> (rate_of cny_ngn (PFloat (21235 / 100)), ''Auto''))
       in bindE (py_mul cny_ngn1 usd_cny1) (\<lambda>usd_ngn1.
          bindE (py_get pd ''smm_prices'' (PDict [])) (\<lambda>smm_prices.
            Inr \<lparr> price_data = pd, USD_NGN = usd_ngn1, USD_CNY = usd_cny1,
                  CNY_NGN = cny_ngn1, CNY_NGN_SOURCE = src, smm = smm_prices \<rparr>))))))"

definition init :: "pyval \<Rightarrow> error + calculator" where
  "init pd = init_with CNY_NGN_OVERRIDE pd"

subsection \<open>Price lookup\<close>

text \<open>\<^verbatim>\<open>data.get(field) or data.get("price")\<close> on a record that is a dict.\<close>

definition record_price :: "(string \<times> pyval) list \<Rightarrow> string \<Rightarrow> pyval" where
  "record_price d field =
     py_or (case map_of d field of None \<Rightarrow> PNone | Some v \<Rightarrow> v)
           (case map_of d ''price'' of None \<Rightarrow> PNone | Some v \<Rightarrow> v)"

text \<open>
  One attempt of \<^verbatim>\<open>_get_price\<close> on the record found under a key: \<open>None\<close> when the
  function goes on to the next key, \<open>Some r\<close> when it returns \<open>r\<close> (or raises).
\<close>

definition attempt :: "str_parser \<Rightarrow> pyval \<Rightarrow> string \<Rightarrow> (error + real option) option" where
  "attempt pf data field =
     (case data of
        PDict d \<Rightarrow>
          (let price = record_price d field
           in if price \<noteq> PNone
              then Some (if ne_zero price
                         then bindE (py_float pf price) (\<lambda>x. Inr (Some x))
                         else Inr None)
              else None)
      | _ \<Rightarrow> None)"

text \<open>The loop over the fallback keys; after it the warning is printed and None returned.\<close>

fun fallback_loop :: "str_parser \<Rightarrow> calculator \<Rightarrow> string \<Rightarrow> string list \<Rightarrow> error + real option" where
  "fallback_loop pf c field [] = Inr None"
| "fallback_loop pf c field (k # ks) =
     bindE (py_get (smm c) k (PDict [])) (\<lambda>data.
       case attempt pf data field of
         Some r \<Rightarrow> r
       | None \<Rightarrow> fallback_loop pf c field ks)"

text \<open>
  \<^verbatim>\<open>_get_price(key, field, fallback_keys)\<close>; no fallback keys (\<^verbatim>\<open>None\<close>) is the empty
  list. The warning it prints is not part of the result.
\<close>

definition get_price :: "str_parser \<Rightarrow> calculator \<Rightarrow> string \<Rightarrow> string \<Rightarrow> string list \<Rightarrow> error + real option" where
  "get_price pf c key field fallback_keys =
     bindE (py_get (smm c) key (PDict [])) (\<lambda>data.
       case attempt pf data field of
         Some r \<Rightarrow> r
       | None \<Rightarrow> fallback_loop pf c field fallback_keys)"

text \<open>\<^verbatim>\<open>not price\<close> on what \<^verbatim>\<open>_get_price\<close> returned: None and 0.0 are false.\<close>

fun no_price :: "real option \<Rightarrow> bool" where
  "no_price None = True"
| "no_price (Some p) = (p = 0)"

subsection \<open>The nine strategies\<close>

text \<open>
  Each strategy follows its source function statement by statement, with the names of
  its local variables. The grade is a number (\<^verbatim>\<open>grade_percent / 100\<close> is a true
  division), the messages \<^verbatim>\<open>calc_monazite\<close> prints are not part of the result, and the
  sentinel \<^verbatim>\<open>0\<close> is the real 0.
\<close>

definition calc_tin_ore :: "str_parser \<Rightarrow> calculator \<Rightarrow> real \<Rightarrow> error + real" where
  "calc_tin_ore pf c grade_percent =
     bindE (get_price pf c ''tin'' ''price_avg'' []) (\<lambda>metal_price_usd.
       if no_price metal_price_usd then Inr 0
       else
         let china_price_usd = the metal_price_usd * (grade_percent / 100)
         in bindE (float_mul china_price_usd (USD_NGN c)) (\<lambda>china_price_ngn.
              let fob_price_ngn = china_price_ngn - LOGISTICS_COST_SEA;
                  max_price_ngn_per_ton = fob_price_ngn / VAT_RATE
              in Inr (max_price_ngn_per_ton / 1000)))"

definition calc_coltan :: "str_parser \<Rightarrow> calculator \<Rightarrow> real \<Rightarrow> error + real" where
  "calc_coltan pf c grade_percent =
     bindE (get_price pf c ''tantalum_oxide'' ''price_avg'' []) (\<lambda>ta2o5_price_usd_kg.
       if no_price ta2o5_price_usd_kg then Inr 0
       else
         bindE (float_mul ((the ta2o5_price_usd_kg - COLTAN_AIR_COST) / VAT_RATE / 100) (USD_NGN c))
           (\<lambda>unit_price_per_grade. Inr (grade_percent * unit_price_per_grade)))"

definition calc_monazite :: "str_parser \<Rightarrow> calculator \<Rightarrow> real \<Rightarrow> error + real" where
  "calc_monazite pf c grade_percent =
     bindE (get_price pf c ''monazite_concentrate'' ''price_avg''
              [''monazite'', ''monazite_concentrate'']) (\<lambda>smm_price_usd_ton.
       if no_price smm_price_usd_ton then Inr 0
       else
         bindE (float_mul (the smm_price_usd_ton) (USD_NGN c)) (\<lambda>price_ngn.
           let china_price_ngn = price_ngn * (grade_percent / 60);
               fob_price_ngn = china_price_ngn - LOGISTICS_COST_SEA
           in if fob_price_ngn \<le> 0 then Inr 0
              else
                let max_price_ngn_per_ton = fob_price_ngn / VAT_RATE
                in Inr (max_price_ngn_per_ton / 1000)))"

definition calc_titanium :: "str_parser \<Rightarrow> calculator \<Rightarrow> error + real" where
  "calc_titanium pf c =
     bindE (get_price pf c ''titanium_concentrate'' ''price_avg'' []) (\<lambda>smm_price_cny_ton.
       if no_price smm_price_cny_ton then Inr 0
       else
         bindE (float_mul (the smm_price_cny_ton) (CNY_NGN c)) (\<lambda>china_price_ngn.
           let fob_price_ngn = china_price_ngn - LOGISTICS_COST_SEA
           in Inr (fob_price_ngn / VAT_RATE)))"

definition calc_zircon :: "str_parser \<Rightarrow> calculator \<Rightarrow> error + real" where
  "calc_zircon pf c =
     bindE (get_price pf c ''zircon_sand'' ''price_avg'' []) (\<lambda>smm_price_usd_ton.
       if no_price smm_price_usd_ton then Inr 0
       else
         bindE (float_mul (the smm_price_usd_ton) (USD_NGN c)) (\<lambda>china_price_ngn.
           let fob_price_ngn = china_price_ngn - LOGISTICS_COST_SEA
           in Inr (fob_price_ngn / VAT_RATE)))"

definition calc_spodumene :: "str_parser \<Rightarrow> calculator \<Rightarrow> real \<Rightarrow> error + real" where
  "calc_spodumene pf c grade_percent =
     bindE (get_price pf c ''spodumene'' ''price_avg'' []) (\<lambda>smm_price_usd_ton.
       if no_price smm_price_usd_ton then Inr 0
       else
         bindE (float_mul (the smm_price_usd_ton) (USD_NGN c)) (\<lambda>price_ngn.
           let china_price_ngn = price_ngn * (grade_percent / 6);
               fob_price_ngn = china_price_ngn - LOGISTICS_COST_SEA;
               max_price_ngn_per_ton = fob_price_ngn / VAT_RATE
           in Inr (max_price_ngn_per_ton * SPODUMENE_DISCOUNT)))"

definition calc_lepidolite :: "str_parser \<Rightarrow> calculator \<Rightarrow> real \<Rightarrow> error + real" where
  "calc_lepidolite pf c grade_percent =
     bindE (get_price pf c ''lithium_carbonate'' ''price_avg'' []) (\<lambda>carbonate_price_usd.
       if no_price carbonate_price_usd then Inr 0
       else
         bindE (float_mul (the carbonate_price_usd) (USD_CNY c)) (\<lambda>carbonate_price_cny.
           let lepidolite_price_cny =
                 (carbonate_price_cny - LEPIDOLITE_PROCESSING_COST_CNY)
                   / LEPIDOLITE_TONS_PER_CARBONATE
                   * (grade_percent / LEPIDOLITE_BASE_GRADE)
           in bindE (float_mul lepidolite_price_cny (CNY_NGN c)) (\<lambda>china_price_ngn.
                let fob_price_ngn = china_price_ngn - LOGISTICS_COST_SEA;
                    max_price_ngn_per_ton = fob_price_ngn / VAT_RATE
                in Inr (max_price_ngn_per_ton * LEPIDOLITE_DISCOUNT))))"

definition calc_lead_ore :: "str_parser \<Rightarrow> calculator \<Rightarrow> real \<Rightarrow> error + real" where
  "calc_lead_ore pf c grade_percent =
     bindE (get_price pf c ''lead'' ''price_avg'' []) (\<lambda>metal_price_usd.
       if no_price metal_price_usd then Inr 0
       else
         let china_price_usd = the metal_price_usd * (grade_percent / 100)
         in bindE (float_mul china_price_usd (USD_NGN c)) (\<lambda>china_price_ngn.
              let fob_price_ngn = china_price_ngn - LOGISTICS_COST_SEA
              in Inr (fob_price_ngn / VAT_RATE)))"

definition calc_zinc_ore :: "str_parser \<Rightarrow> calculator \<Rightarrow> real \<Rightarrow> error + real" where
  "calc_zinc_ore pf c grade_percent =
     bindE (get_price pf c ''zinc'' ''price_avg'' []) (\<lambda>metal_price_usd.
       if no_price metal_price_usd then Inr 0
       else
         let china_price_usd = the metal_price_usd * (grade_percent / 100)
         in bindE (float_mul china_price_usd (USD_NGN c)) (\<lambda>china_price_ngn.
              let fob_price_ngn = china_price_ngn - LOGISTICS_COST_SEA
              in Inr (fob_price_ngn / VAT_RATE)))"

subsection \<open>All prices\<close>

text \<open>
  One commodity of \<^verbatim>\<open>max_purchase_prices\<close>: its unit and its prices by grade label, in the
  order of the source. The base-grade label and the note are constant texts, left out,
  as are \<^verbatim>\<open>date\<close>, \<^verbatim>\<open>calculation_time\<close> and the constant \<^verbatim>\<open>parameters\<close>.
\<close>

record commodity_prices =
  unit_label :: string
  grades :: "(string \<times> real) list"

record results =
  exchange_rates :: "pyval \<times> pyval \<times> pyval \<times> string"
  source_prices :: "(string \<times> real option \<times> string) list"
  max_purchase_prices :: "(string \<times> commodity_prices) list"

text \<open>\<^verbatim>\<open>{label: round(calc(grade), 0), ...}\<close>, the entries evaluated in order.\<close>

definition grade_rows :: "(real \<Rightarrow> error + real) \<Rightarrow> (string \<times> real) list \<Rightarrow> error + (string \<times> real) list" where
  "grade_rows calc lgs = mapE (\<lambda>(label, g). bindE (calc g) (\<lambda>v. Inr (label, py_round v))) lgs"

definition source_keys :: "(string \<times> string \<times> string) list" where
  "source_keys =
     [(''tin'', ''tin'', ''USD/mt''),
      (''tantalum_oxide'', ''tantalum_oxide'', ''USD/kg''),
      (''monazite'', ''monazite_concentrate'', ''USD/mt''),
      (''titanium'', ''titanium_concentrate'', ''CNY/mt''),
      (''zircon'', ''zircon_sand'', ''USD/mt''),
      (''spodumene'', ''spodumene'', ''USD/mt''),
      (''lithium_carbonate'', ''lithium_carbonate'', ''USD/mt''),
      (''lead'', ''lead'', ''USD/mt''),
      (''zinc'', ''zinc'', ''USD/mt'')]"

definition calculate_all :: "str_parser \<Rightarrow> calculator \<Rightarrow> error + results" where
  "calculate_all pf c =
     bindE (mapE (\<lambda>(name, key, u).
              bindE (get_price pf c key ''price_avg'' []) (\<lambda>p. Inr (name, p, u))) source_keys)
       (\<lambda>src.
     bindE (grade_rows (calc_tin_ore pf c)
              [(''60%'', 60), (''65%'', 65), (''70%'', 70), (''75%'', 75)]) (\<lambda>tin_ore.
     bindE (grade_rows (calc_coltan pf c)
              [(''20%'', 20), (''25%'', 25), (''30%'', 30), (''35%'', 35)]) (\<lambda>coltan.
     bindE (grade_rows (calc_monazite pf c)
              [(''30%'', 30), (''40%'', 40), (''45%'', 45), (''50%'', 50), (''60%'', 60)])
       (\<lambda>monazite.
     bindE (calc_titanium pf c) (\<lambda>titanium.
     bindE (calc_zircon pf c) (\<lambda>zircon.
     bindE (grade_rows (calc_spodumene pf c)
              [(''3%'', 3), (''4%'', 4), (''5%'', 5), (''6%'', 6)]) (\<lambda>spodumene.
     bindE (grade_rows (calc_lepidolite pf c)
              [(''2.0%'', 2), (''2.5%'', 25 / 10), (''3.0%'', 3)]) (\<lambda>lepidolite.
     bindE (grade_rows (calc_lead_ore pf c)
              [(''40%'', 40), (''50%'', 50), (''60%'', 60)]) (\<lambda>lead_ore.
     bindE (grade_rows (calc_zinc_ore pf c)
              [(''40%'', 40), (''50%'', 50), (''60%'', 60)]) (\<lambda>zinc_ore.
       Inr \<lparr> exchange_rates = (USD_NGN c, USD_CNY c, CNY_NGN c, CNY_NGN_SOURCE c),
             source_prices = src,
             max_purchase_prices =
               [(''tin_ore'', \<lparr> unit_label = ''NGN/kg'', grades = tin_ore \<rparr>),
                (''coltan'', \<lparr> unit_label = ''NGN/kg'', grades = coltan \<rparr>),
                (''monazite'', \<lparr> unit_label = ''NGN/kg'', grades = monazite \<rparr>),
                (''titanium'', \<lparr> unit_label = ''NGN/ton'',
                                 grades = [(''50%'', py_round titanium)] \<rparr>),
                (''zircon'', \<lparr> unit_label = ''NGN/ton'',
                               grades = [(''65%'', py_round zircon)] \<rparr>),
                (''spodumene'', \<lparr> unit_label = ''NGN/ton'', grades = spodumene \<rparr>),
                (''lepidolite'', \<lparr> unit_label = ''NGN/ton'', grades = lepidolite \<rparr>),
                (''lead_ore'', \<lparr> unit_label = ''NGN/ton'', grades = lead_ore \<rparr>),
                (''zinc_ore'', \<lparr> unit_label = ''NGN/ton'', grades = zinc_ore \<rparr>)] \<rparr>))))))))))"

text \<open>The price \<^verbatim>\<open>results["max_purchase_prices"][commodity]["grades"][label]\<close>.\<close>

definition price_at :: "results \<Rightarrow> string \<Rightarrow> string \<Rightarrow> real option" where
  "price_at r commodity label =
     (case map_of (max_purchase_prices r) commodity of
        None \<Rightarrow> None
      | Some row \<Rightarrow> map_of (grades row) label)"

text \<open>Construction followed by \<^verbatim>\<open>calculate_all\<close>, as \<^verbatim>\<open>main\<close> runs them.\<close>

definition run :: "str_parser \<Rightarrow> pyval \<Rightarrow> error + results" where
  "run pf pd = bindE (init pd) (calculate_all pf)"

section \<open>Predicates and sample data for the properties\<close>

text \<open>A string parser that rejects every string.\<close>

definition no_parse :: str_parser where
  "no_parse s = None"

text \<open>
  A record that offers no price: not a dict, or a dict in which \<^verbatim>\<open>field\<close> and
  \<^verbatim>\<open>price\<close> hold nothing but None or zero.
\<close>

fun no_usable_field :: "pyval \<Rightarrow> string \<Rightarrow> bool" where
  "no_usable_field (PDict d) field =
     (record_price d field = PNone \<or> \<not> ne_zero (record_price d field))"
| "no_usable_field _ field = True"

text \<open>The record \<^verbatim>\<open>self.smm.get(k, {})\<close> of a key in the dict \<open>m\<close>.\<close>

definition record_at :: "(string \<times> pyval) list \<Rightarrow> string \<Rightarrow> pyval" where
  "record_at m k = (case map_of m k of None \<Rightarrow> PDict [] | Some v \<Rightarrow> v)"

text \<open>
  Well-formed snapshots: a dict; \<^verbatim>\<open>exchange_rates\<close> absent or a dict whose
  \<^verbatim>\<open>usd_cny\<close> is absent, a number, or a record whose \<^verbatim>\<open>rate\<close> is absent or a number;
  \<^verbatim>\<open>smm_prices\<close> absent or a dict in which every record that is a dict holds under
  \<^verbatim>\<open>price_avg\<close> and \<^verbatim>\<open>price\<close> nothing, None or a number. An integer price must
  convert to a double; for an integer rate \<open>i\<close> the product \<open>216 * i\<close>, which becomes
  USD/NGN, must convert to a double (then \<open>i\<close> does too).
\<close>

fun rate_num_ok :: "pyval \<Rightarrow> bool" where
  "rate_num_ok (PFloat r) = True"
| "rate_num_ok (PInt i) = int_fits (216 * i)"
| "rate_num_ok _ = False"

fun usd_cny_ok :: "pyval option \<Rightarrow> bool" where
  "usd_cny_ok None = True"
| "usd_cny_ok (Some (PDict d)) =
     (case map_of d ''rate'' of None \<Rightarrow> True | Some v \<Rightarrow> rate_num_ok v)"
| "usd_cny_ok (Some v) = rate_num_ok v"

fun price_ok :: "pyval option \<Rightarrow> bool" where
  "price_ok None = True"
| "price_ok (Some PNone) = True"
| "price_ok (Some (PFloat r)) = True"
| "price_ok (Some (PInt i)) = int_fits i"
| "price_ok (Some _) = False"

fun record_ok :: "pyval \<Rightarrow> bool" where
  "record_ok (PDict d) = (price_ok (map_of d ''price_avg'') \<and> price_ok (map_of d ''price''))"
| "record_ok _ = True"

definition wf_snapshot :: "pyval \<Rightarrow> bool" where
  "wf_snapshot pd =
     (case pd of
        PDict entries \<Rightarrow>
          (case map_of entries ''exchange_rates'' of
             None \<Rightarrow> True
           | Some (PDict er) \<Rightarrow> usd_cny_ok (map_of er ''usd_cny'')
           | Some _ \<Rightarrow> False)
          \<and> (case map_of entries ''smm_prices'' of
               None \<Rightarrow> True
             | Some (PDict m) \<Rightarrow> list_all (\<lambda>(k, v). record_ok v) m
             | Some _ \<Rightarrow> False)
      | _ \<Rightarrow> False)"

text \<open>The commodities of a result table with the grade labels of each.\<close>

definition table_shape :: "results \<Rightarrow> (string \<times> string list) list" where
  "table_shape r = map (\<lambda>(name, row). (name, map fst (grades row))) (max_purchase_prices r)"

definition full_shape :: "(string \<times> string list) list" where
  "full_shape =
     [(''tin_ore'', [''60%'', ''65%'', ''70%'', ''75%'']),
      (''coltan'', [''20%'', ''25%'', ''30%'', ''35%'']),
      (''monazite'', [''30%'', ''40%'', ''45%'', ''50%'', ''60%'']),
      (''titanium'', [''50%'']),
      (''zircon'', [''65%'']),
      (''spodumene'', [''3%'', ''4%'', ''5%'', ''6%'']),
      (''lepidolite'', [''2.0%'', ''2.5%'', ''3.0%'']),
      (''lead_ore'', [''40%'', ''50%'', ''60%'']),
      (''zinc_ore'', [''40%'', ''50%'', ''60%''])]"

text \<open>
  The lookup each strategy makes, by commodity of the table: the key and the fallback
  keys. A commodity is marked missing when all its prices are the sentinel 0.
\<close>

definition strategy_keys :: "(string \<times> string \<times> string list) list" where
  "strategy_keys =
     [(''tin_ore'', ''tin'', []),
      (''coltan'', ''tantalum_oxide'', []),
      (''monazite'', ''monazite_concentrate'', [''monazite'', ''monazite_concentrate'']),
      (''titanium'', ''titanium_concentrate'', []),
      (''zircon'', ''zircon_sand'', []),
      (''spodumene'', ''spodumene'', []),
      (''lepidolite'', ''lithium_carbonate'', []),
      (''lead_ore'', ''lead'', []),
      (''zinc_ore'', ''zinc'', [])]"

definition all_missing :: "results \<Rightarrow> string \<Rightarrow> bool" where
  "all_missing r name =
     (case map_of (max_purchase_prices r) name of
        None \<Rightarrow> False
      | Some row \<Rightarrow> list_all (\<lambda>(label, v). v = 0) (grades row))"

text \<open>
  A snapshot with tin at 30000 USD/mt, tantalum oxide at 65 USD/kg and USD/CNY 7.504;
  its own USD/NGN is 1500.
\<close>

definition example_smm :: "(string \<times> pyval) list" where
  "example_smm =
     [(''tin'', PDict [(''price_avg'', PInt 30000), (''unit'', PStr ''USD/mt'')]),
      (''tantalum_oxide'', PDict [(''price_avg'', PInt 65), (''unit'', PStr ''USD/kg'')]),
      (''lithium_carbonate'', PDict [(''price_avg'', PInt 10000), (''unit'', PStr ''USD/mt'')]),
      (''lead'', PDict [(''price_avg'', PInt 2000), (''unit'', PStr ''USD/mt'')]),
      (''zinc'', PDict [(''price_avg'', PFloat (28005 / 10)), (''unit'', PStr ''USD/mt'')])]"

definition example_rates :: "(string \<times> pyval) list" where
  "example_rates = [(''usd_cny'', PFloat (7504 / 1000)), (''usd_ngn'', PInt 1500)]"

definition example_snapshot :: pyval where
  "example_snapshot =
     PDict [(''date'', PStr ''2026-01-15''),
            (''smm_prices'', PDict example_smm),
            (''exchange_rates'', PDict example_rates)]"

definition example_calculator :: calculator where
  "example_calculator =
     \<lparr> price_data = example_snapshot,
       USD_NGN = PFloat (1620864 / 1000),
       USD_CNY = PFloat (7504 / 1000),
       CNY_NGN = PInt 216,
       CNY_NGN_SOURCE = ''Manual Override'',
       smm = PDict example_smm \<rparr>"

text \<open>The same calculator with lithium carbonate at twice the price.\<close>

definition doubled_smm :: "(string \<times> pyval) list" where
  "doubled_smm =
     [(''lithium_carbonate'', PDict [(''price_avg'', PInt 20000), (''unit'', PStr ''USD/mt'')])]"

definition doubled_calculator :: calculator where
  "doubled_calculator = example_calculator \<lparr> smm := PDict doubled_smm \<rparr>"

text \<open>
  Snapshots with the prices of the example and of its doubled variant, and a USD/CNY
  rate of 0 or of -7: the constructor takes the rate as it is, so USD/NGN is 0 or -1512.
\<close>

definition zero_rate_snapshot :: pyval where
  "zero_rate_snapshot =
     PDict [(''smm_prices'', PDict example_smm),
            (''exchange_rates'', PDict [(''usd_cny'', PInt 0)])]"

definition zero_rate_calculator :: calculator where
  "zero_rate_calculator =
     example_calculator \<lparr> price_data := zero_rate_snapshot,
                          USD_NGN := PInt 0, USD_CNY := PInt 0 \<rparr>"

definition zero_rate_doubled_snapshot :: pyval where
  "zero_rate_doubled_snapshot =
     PDict [(''smm_prices'', PDict doubled_smm),
            (''exchange_rates'', PDict [(''usd_cny'', PInt 0)])]"

definition zero_rate_doubled_calculator :: calculator where
  "zero_rate_doubled_calculator =
     doubled_calculator \<lparr> price_data := zero_rate_doubled_snapshot,
                          USD_NGN := PInt 0, USD_CNY := PInt 0 \<rparr>"

definition negative_rate_snapshot :: pyval where
  "negative_rate_snapshot =
     PDict [(''smm_prices'', PDict example_smm),
            (''exchange_rates'', PDict [(''usd_cny'', PInt (- 7))])]"

definition negative_rate_calculator :: calculator where
  "negative_rate_calculator =
     example_calculator \<lparr> price_data := negative_rate_snapshot,
                          USD_NGN := PInt (- 1512), USD_CNY := PInt (- 7) \<rparr>"

definition negative_rate_doubled_snapshot :: pyval where
  "negative_rate_doubled_snapshot =
     PDict [(''smm_prices'', PDict doubled_smm),
            (''exchange_rates'', PDict [(''usd_cny'', PInt (- 7))])]"

definition negative_rate_doubled_calculator :: calculator where
  "negative_rate_doubled_calculator =
     doubled_calculator \<lparr> price_data := negative_rate_doubled_snapshot,
                          USD_NGN := PInt (- 1512), USD_CNY := PInt (- 7) \<rparr>"

text \<open>
  Monazite: the first key holds a zero under \<^verbatim>\<open>price\<close>, the fallback key a quote.
\<close>

definition zero_price_smm :: "(string \<times> pyval) list" where
  "zero_price_smm =
     [(''monazite_concentrate'', PDict [(''price_avg'', PNone), (''price'', PInt 0)]),
      (''monazite'', PDict [(''price_avg'', PFloat (750435 / 100)), (''unit'', PStr ''USD/mt'')])]"

definition zero_price_snapshot :: pyval where
  "zero_price_snapshot = PDict [(''smm_prices'', PDict zero_price_smm)]"

definition zero_price_calculator :: calculator where
  "zero_price_calculator =
     \<lparr> price_data = zero_price_snapshot,
       USD_NGN = PFloat 1512,
       USD_CNY = PFloat 7,
       CNY_NGN = PInt 216,
       CNY_NGN_SOURCE = ''Manual Override'',
       smm = PDict zero_price_smm \<rparr>"

text \<open>Quotes too low to cover the logistics cost.\<close>

definition low_price_smm :: "(string \<times> pyval) list" where
  "low_price_smm =
     [(''monazite_concentrate'', PDict [(''price_avg'', PInt 90)]),
      (''spodumene'', PDict [(''price_avg'', PInt 90)]),
      (''lithium_carbonate'', PDict [(''price_avg'', PInt 5000)])]"

definition low_price_calculator :: calculator where
  "low_price_calculator = example_calculator \<lparr> smm := PDict low_price_smm \<rparr>"

text \<open>Malformed snapshots: a null rate, and a price that is an object.\<close>

definition null_rate_snapshot :: pyval where
  "null_rate_snapshot =
     PDict [(''smm_prices'', PDict example_smm),
            (''exchange_rates'', PDict [(''usd_cny'', PNone), (''usd_ngn'', PNone),
                                         (''cny_ngn'', PNone)])]"

definition nested_price_snapshot :: pyval where
  "nested_price_snapshot =
     PDict [(''smm_prices'',
               PDict [(''tin'', PDict [(''price_avg'', PDict [(''value'', PInt 30000)])])]),
            (''exchange_rates'', PDict example_rates)]"

definition nested_price_calculator :: calculator where
  "nested_price_calculator =
     \<lparr> price_data = nested_price_snapshot,
       USD_NGN = PFloat (1620864 / 1000),
       USD_CNY = PFloat (7504 / 1000),
       CNY_NGN = PInt 216,
       CNY_NGN_SOURCE = ''Manual Override'',
       smm = PDict [(''tin'', PDict [(''price_avg'', PDict [(''value'', PInt 30000)])])] \<rparr>"

text \<open>
  A well-formed snapshot with an unknown key, a record that is a bare number, a null
  price and a rate given as a record.
\<close>

definition tolerated_snapshot :: pyval where
  "tolerated_snapshot =
     PDict [(''lme_prices'', PDict [(''tin'', PDict [(''price'', PNone)])]),
            (''smm_prices'',
               PDict [(''tin'', PDict [(''price_avg'', PInt 30000), (''unit'', PStr ''USD/mt'')]),
                      (''gold'', PInt 5),
                      (''spodumene'', PDict [(''price_avg'', PNone), (''change'', PNone)]),
                      (''unknown_ore'', PDict [(''comment'', PStr ''n/a'')])]),
            (''exchange_rates'',
               PDict [(''usd_cny'', PDict [(''rate'', PFloat (7504 / 1000))]),
                      (''source'', PStr ''parallel market'')])]"

text \<open>A record that is a bare number, with a quote under the fallback key.\<close>

definition bare_number_smm :: "(string \<times> pyval) list" where
  "bare_number_smm =
     [(''monazite_concentrate'', PFloat (750435 / 100)),
      (''monazite'', PDict [(''price'', PInt 7500)]),
      (''zircon_sand'', PInt 0)]"

definition bare_number_calculator :: calculator where
  "bare_number_calculator = example_calculator \<lparr> smm := PDict bare_number_smm \<rparr>"

section \<open>Auxiliary facts\<close>

lemma bindE_Inl [simp]: "bindE (Inl e) f = Inl e"
  by (simp add: bindE_def)

lemma bindE_Inr [simp]: "bindE (Inr x) f = f x"
  by (simp add: bindE_def)

lemma bindE_eq_Inr: "bindE m f = Inr y \<longleftrightarrow> (\<exists>x. m = Inr x \<and> f x = Inr y)"
  by (cases m) simp_all

lemma float_mul_Inr: "float_operand v = Inr y \<Longrightarrow> float_mul x v = Inr (x * y)"
  by (simp add: float_mul_def)

lemma int_fits_small: "\<bar>i\<bar> \<le> 2 ^ 64 \<Longrightarrow> int_fits i"
proof -
  assume "\<bar>i\<bar> \<le> 2 ^ 64"
  moreover have "(2::int) ^ 64 < 2 ^ 1024 - 2 ^ 970" by simp
  ultimately show ?thesis unfolding int_fits_def by linarith
qed

lemma init_example: "init example_snapshot = Inr example_calculator"
  by (simp add: init_def init_with_def CNY_NGN_OVERRIDE_def example_snapshot_def
      example_rates_def example_calculator_def rate_of_def py_mul_def int_to_float_def
      int_fits_small Let_def)

lemma example_rates_simps [simp]:
  "USD_NGN example_calculator = PFloat (1620864 / 1000)"
  "USD_CNY example_calculator = PFloat (7504 / 1000)"
  "CNY_NGN example_calculator = PInt 216"
  "smm example_calculator = PDict example_smm"
  by (simp_all add: example_calculator_def)

lemmas lookup_defs = get_price_def attempt_def record_price_def py_or_def int_to_float_def

lemma example_prices:
  "get_price pf example_calculator ''tin'' ''price_avg'' [] = Inr (Some 30000)"
  "get_price pf example_calculator ''tantalum_oxide'' ''price_avg'' [] = Inr (Some 65)"
  "get_price pf example_calculator ''lithium_carbonate'' ''price_avg'' [] = Inr (Some 10000)"
  "get_price pf example_calculator ''lead'' ''price_avg'' [] = Inr (Some 2000)"
  "get_price pf example_calculator ''zinc'' ''price_avg'' [] = Inr (Some (28005 / 10))"
  by (simp_all add: lookup_defs example_smm_def int_fits_small)

lemma run_example:
  "bindE (run pf example_snapshot)
     (\<lambda>r. Inr (price_at r ''tin_ore'' ''70%'', price_at r ''coltan'' ''30%''))
   = Inr (Some 30051, Some 24528)"
  unfolding run_def init_example
  by (simp add: calculate_all_def source_keys_def grade_rows_def lookup_defs int_fits_small
      example_smm_def calc_tin_ore_def calc_coltan_def calc_monazite_def calc_titanium_def
      calc_zircon_def calc_spodumene_def calc_lepidolite_def calc_lead_ore_def
      calc_zinc_ore_def float_mul_def LOGISTICS_COST_SEA_def VAT_RATE_def COLTAN_AIR_COST_def
      SPODUMENE_DISCOUNT_def LEPIDOLITE_DISCOUNT_def LEPIDOLITE_PROCESSING_COST_CNY_def
      LEPIDOLITE_TONS_PER_CARBONATE_def LEPIDOLITE_BASE_GRADE_def py_round_def price_at_def)





lemma rate_calculators_simps [simp]:
  "USD_NGN zero_rate_calculator = PInt 0"
  "USD_CNY zero_rate_calculator = PInt 0"
  "CNY_NGN zero_rate_calculator = PInt 216"
  "smm zero_rate_calculator = PDict example_smm"
  "USD_NGN negative_rate_calculator = PInt (- 1512)"
  "USD_CNY negative_rate_calculator = PInt (- 7)"
  "CNY_NGN negative_rate_calculator = PInt 216"
  "smm negative_rate_calculator = PDict example_smm"
  by (simp_all add: zero_rate_calculator_def negative_rate_calculator_def)



lemma init_with_product:
  assumes "init_with ovr pd = Inr c"
  shows "py_mul (CNY_NGN c) (USD_CNY c) = Inr (USD_NGN c)"
  using assms
  by (cases ovr) (auto simp: init_with_def bindE_eq_Inr Let_def)

lemma rate_entry_agree:
  assumes "\<forall>k. k \<noteq> ''usd_ngn'' \<longrightarrow> map_of er' k = map_of er k"
  shows "map_of er' ''usd_cny'' = map_of er ''usd_cny''"
    and "map_of er' ''cny_ngn'' = map_of er ''cny_ngn''"
  using assms by simp_all

lemma low_price_simps [simp]:
  "USD_NGN low_price_calculator = PFloat (1620864 / 1000)"
  "USD_CNY low_price_calculator = PFloat (7504 / 1000)"
  "CNY_NGN low_price_calculator = PInt 216"
  "smm low_price_calculator = PDict low_price_smm"
  by (simp_all add: low_price_calculator_def)

lemma low_prices:
  "get_price pf low_price_calculator ''monazite_concentrate'' ''price_avg''
       [''monazite'', ''monazite_concentrate''] = Inr (Some 90)"
  "get_price pf low_price_calculator ''spodumene'' ''price_avg'' [] = Inr (Some 90)"
  "get_price pf low_price_calculator ''lithium_carbonate'' ''price_avg'' [] = Inr (Some 5000)"
  by (simp_all add: lookup_defs low_price_smm_def int_fits_small)



lemma doubled_simps [simp]:
  "USD_CNY doubled_calculator = PFloat (7504 / 1000)"
  "CNY_NGN doubled_calculator = PInt 216"
  "smm doubled_calculator = PDict doubled_smm"
  by (simp_all add: doubled_calculator_def)

lemma rate_doubled_simps [simp]:
  "USD_CNY zero_rate_doubled_calculator = PInt 0"
  "CNY_NGN zero_rate_doubled_calculator = PInt 216"
  "smm zero_rate_doubled_calculator = PDict doubled_smm"
  "USD_CNY negative_rate_doubled_calculator = PInt (- 7)"
  "CNY_NGN negative_rate_doubled_calculator = PInt 216"
  "smm negative_rate_doubled_calculator = PDict doubled_smm"
  by (simp_all add: zero_rate_doubled_calculator_def negative_rate_doubled_calculator_def
      doubled_calculator_def)



lemma attempt_non_dict: "\<not> isinstance_dict v \<Longrightarrow> attempt pf v field = None"
  by (cases v) (simp_all add: attempt_def)

lemma attempt_no_usable:
  assumes "no_usable_field v field"
  shows "attempt pf v field = None \<or> attempt pf v field = Some (Inr None)"
  using assms by (cases v) (auto simp: attempt_def Let_def)

lemma py_get_smm:
  "(case map_of m k of None \<Rightarrow> PDict [] | Some v \<Rightarrow> v) = record_at m k"
  by (simp add: record_at_def)

lemma fallback_loop_no_usable:
  assumes "smm c = PDict m" and "\<forall>k \<in> set ks. no_usable_field (record_at m k) field"
  shows "fallback_loop pf c field ks = Inr None"
  using assms(2)
proof (induction ks)
  case Nil
  show ?case by simp
next
  case (Cons k ks)
  then have "no_usable_field (record_at m k) field" by simp
  from attempt_no_usable [OF this, of pf] Cons show ?case
    by (auto simp: assms(1) py_get_smm)
qed

lemma bare_number_simps [simp]: "smm bare_number_calculator = PDict bare_number_smm"
  by (simp add: bare_number_calculator_def)

lemma price_ok_cases:
  assumes "price_ok x"
  obtains "x = None" | "x = Some PNone" | r where "x = Some (PFloat r)"
    | i where "x = Some (PInt i)" "int_fits i"
  using assms by (cases x rule: price_ok.cases) auto

lemma attempt_plain:
  assumes "v = PNone \<or> (\<exists>r. v = PFloat r) \<or> (\<exists>i. v = PInt i \<and> int_fits i)"
  shows "(if v \<noteq> PNone
          then Some (if ne_zero v then bindE (py_float pf v) (\<lambda>x. Inr (Some x)) else Inr None)
          else None) = None
       \<or> (\<exists>r. (if v \<noteq> PNone
          then Some (if ne_zero v then bindE (py_float pf v) (\<lambda>x. Inr (Some x)) else Inr None)
          else None) = Some (Inr r))"
  using assms by (auto simp: int_to_float_def)

lemma field_plain:
  assumes "price_ok x"
  shows "(case x of None \<Rightarrow> PNone | Some v \<Rightarrow> v) = PNone
       \<or> (\<exists>r. (case x of None \<Rightarrow> PNone | Some v \<Rightarrow> v) = PFloat r)
       \<or> (\<exists>i. (case x of None \<Rightarrow> PNone | Some v \<Rightarrow> v) = PInt i \<and> int_fits i)"
  using assms by (rule price_ok_cases) simp_all

lemma record_price_plain:
  assumes "price_ok (map_of d ''price_avg'')" and "price_ok (map_of d ''price'')"
  shows "record_price d ''price_avg'' = PNone
       \<or> (\<exists>r. record_price d ''price_avg'' = PFloat r)
       \<or> (\<exists>i. record_price d ''price_avg'' = PInt i \<and> int_fits i)"
  using field_plain [OF assms(1)] field_plain [OF assms(2)]
  unfolding record_price_def py_or_def by presburger

lemma attempt_ok:
  assumes "record_ok data"
  shows "attempt pf data ''price_avg'' = None \<or> (\<exists>r. attempt pf data ''price_avg'' = Some (Inr r))"
proof (cases data)
  case (PDict d)
  with assms have "price_ok (map_of d ''price_avg'')" "price_ok (map_of d ''price'')"
    by simp_all
  from attempt_plain [OF record_price_plain [OF this], of pf] PDict show ?thesis
    by (simp add: attempt_def Let_def)
qed (simp_all add: attempt_def)

lemma record_at_ok:
  assumes "list_all (\<lambda>(k, v). record_ok v) m"
  shows "record_ok (record_at m k)"
proof (cases "map_of m k")
  case None
  then show ?thesis by (simp add: record_at_def)
next
  case (Some v)
  then have "(k, v) \<in> set m" by (rule map_of_SomeD)
  with assms have "record_ok v" by (auto simp: list_all_iff)
  with Some show ?thesis by (simp add: record_at_def)
qed

lemma fallback_loop_ok:
  assumes "smm c = PDict m" and "list_all (\<lambda>(k, v). record_ok v) m"
  shows "\<exists>r. fallback_loop pf c ''price_avg'' ks = Inr r"
proof (induction ks)
  case Nil
  show ?case by simp
next
  case (Cons k ks)
  from attempt_ok [OF record_at_ok [OF assms(2)], of pf k] Cons show ?case
    by (auto simp: assms(1) py_get_smm)
qed

lemma get_price_ok:
  assumes "smm c = PDict m" and "list_all (\<lambda>(k, v). record_ok v) m"
  shows "\<exists>r. get_price pf c k ''price_avg'' ks = Inr r"
  using attempt_ok [OF record_at_ok [OF assms(2)], of pf k] fallback_loop_ok [OF assms, of pf ks]
  by (auto simp: get_price_def assms(1) py_get_smm)

lemma strategies_ok:
  assumes "smm c = PDict m" and "list_all (\<lambda>(k, v). record_ok v) m"
    and "float_operand (USD_NGN c) = Inr fx"
    and "float_operand (USD_CNY c) = Inr ux"
    and "float_operand (CNY_NGN c) = Inr nx"
  shows "\<exists>r. calc_tin_ore pf c g = Inr r"
    and "\<exists>r. calc_coltan pf c g = Inr r"
    and "\<exists>r. calc_monazite pf c g = Inr r"
    and "\<exists>r. calc_titanium pf c = Inr r"
    and "\<exists>r. calc_zircon pf c = Inr r"
    and "\<exists>r. calc_spodumene pf c g = Inr r"
    and "\<exists>r. calc_lepidolite pf c g = Inr r"
    and "\<exists>r. calc_lead_ore pf c g = Inr r"
    and "\<exists>r. calc_zinc_ore pf c g = Inr r"
proof -
  note gp = get_price_ok [OF assms(1,2), of pf]
  from gp [of "''tin''" "[]"] show "\<exists>r. calc_tin_ore pf c g = Inr r"
    by (auto simp: calc_tin_ore_def float_mul_def assms(3) Let_def)
  from gp [of "''tantalum_oxide''" "[]"] show "\<exists>r. calc_coltan pf c g = Inr r"
    by (auto simp: calc_coltan_def float_mul_def assms(3) Let_def)
  from gp [of "''monazite_concentrate''" "[''monazite'', ''monazite_concentrate'']"]
  show "\<exists>r. calc_monazite pf c g = Inr r"
    by (auto simp: calc_monazite_def float_mul_def assms(3) Let_def)
  from gp [of "''titanium_concentrate''" "[]"] show "\<exists>r. calc_titanium pf c = Inr r"
    by (auto simp: calc_titanium_def float_mul_def assms(5) Let_def)
  from gp [of "''zircon_sand''" "[]"] show "\<exists>r. calc_zircon pf c = Inr r"
    by (auto simp: calc_zircon_def float_mul_def assms(3) Let_def)
  from gp [of "''spodumene''" "[]"] show "\<exists>r. calc_spodumene pf c g = Inr r"
    by (auto simp: calc_spodumene_def float_mul_def assms(3) Let_def)
  from gp [of "''lithium_carbonate''" "[]"] show "\<exists>r. calc_lepidolite pf c g = Inr r"
    by (auto simp: calc_lepidolite_def float_mul_def assms(4,5) Let_def)
  from gp [of "''lead''" "[]"] show "\<exists>r. calc_lead_ore pf c g = Inr r"
    by (auto simp: calc_lead_ore_def float_mul_def assms(3) Let_def)
  from gp [of "''zinc''" "[]"] show "\<exists>r. calc_zinc_ore pf c g = Inr r"
    by (auto simp: calc_zinc_ore_def float_mul_def assms(3) Let_def)
qed

lemma mapE_ok:
  assumes "\<forall>x \<in> set xs. \<exists>y. f x = Inr y"
  shows "\<exists>ys. mapE f xs = Inr ys"
  using assms
proof (induction xs)
  case Nil
  show ?case by simp
next
  case (Cons x xs)
  then obtain y ys where "f x = Inr y" "mapE f xs = Inr ys" by auto
  then show ?case by simp
qed

lemma grade_rows_ok:
  assumes "\<And>g. \<exists>r. calc g = Inr r"
  shows "\<exists>rows. grade_rows calc lgs = Inr rows \<and> map fst rows = map fst lgs"
proof (induction lgs)
  case Nil
  show ?case by (simp add: grade_rows_def)
next
  case (Cons lg lgs)
  obtain l g where lg: "lg = (l, g)" by (cases lg)
  from assms obtain r where "calc g = Inr r" by blast
  moreover from Cons obtain rows where "grade_rows calc lgs = Inr rows"
    "map fst rows = map fst lgs" by blast
  ultimately show ?case by (simp add: grade_rows_def lg)
qed

lemma py_round_zero: "py_round 0 = 0"
  by (simp add: py_round_def)

lemma missing_price_zero:
  "get_price pf c ''tin'' ''price_avg'' [] = Inr None \<Longrightarrow> calc_tin_ore pf c g = Inr 0"
  "get_price pf c ''tantalum_oxide'' ''price_avg'' [] = Inr None \<Longrightarrow> calc_coltan pf c g = Inr 0"
  "get_price pf c ''monazite_concentrate'' ''price_avg''
      [''monazite'', ''monazite_concentrate''] = Inr None \<Longrightarrow> calc_monazite pf c g = Inr 0"
  "get_price pf c ''titanium_concentrate'' ''price_avg'' [] = Inr None
     \<Longrightarrow> calc_titanium pf c = Inr 0"
  "get_price pf c ''zircon_sand'' ''price_avg'' [] = Inr None \<Longrightarrow> calc_zircon pf c = Inr 0"
  "get_price pf c ''spodumene'' ''price_avg'' [] = Inr None \<Longrightarrow> calc_spodumene pf c g = Inr 0"
  "get_price pf c ''lithium_carbonate'' ''price_avg'' [] = Inr None
     \<Longrightarrow> calc_lepidolite pf c g = Inr 0"
  "get_price pf c ''lead'' ''price_avg'' [] = Inr None \<Longrightarrow> calc_lead_ore pf c g = Inr 0"
  "get_price pf c ''zinc'' ''price_avg'' [] = Inr None \<Longrightarrow> calc_zinc_ore pf c g = Inr 0"
  by (simp_all add: calc_tin_ore_def calc_coltan_def calc_monazite_def calc_titanium_def
      calc_zircon_def calc_spodumene_def calc_lepidolite_def calc_lead_ore_def
      calc_zinc_ore_def)

lemma grade_rows_zero:
  assumes "\<And>g. calc g = Inr 0" and "grade_rows calc lgs = Inr rows"
  shows "list_all (\<lambda>(label, v). v = 0) rows"
  using assms(2)
proof (induction lgs arbitrary: rows)
  case Nil
  then show ?case by (simp add: grade_rows_def)
next
  case (Cons lg lgs)
  obtain l g where lg: "lg = (l, g)" by (cases lg)
  from Cons.prems obtain rest where "grade_rows calc lgs = Inr rest" "rows = (l, 0) # rest"
    by (auto simp: grade_rows_def lg assms(1) py_round_zero bindE_eq_Inr)
  with Cons.IH show ?case by simp
qed

lemma calculate_all_ok:
  assumes "smm c = PDict m" and "list_all (\<lambda>(k, v). record_ok v) m"
    and "float_operand (USD_NGN c) = Inr fx"
    and "float_operand (USD_CNY c) = Inr ux"
    and "float_operand (CNY_NGN c) = Inr nx"
  shows "\<exists>r. calculate_all pf c = Inr r \<and> table_shape r = full_shape
           \<and> (\<forall>(name, key, fbs) \<in> set strategy_keys.
                 get_price pf c key ''price_avg'' fbs = Inr None \<longrightarrow> all_missing r name)"
proof -
  note ok = strategies_ok [OF assms, of pf]
  note zero = missing_price_zero [of pf c]
  have "\<forall>x \<in> set source_keys. \<exists>y.
          (\<lambda>(name, key, u). bindE (get_price pf c key ''price_avg'' [])
                               (\<lambda>p. Inr (name, p, u))) x = Inr y"
  proof
    fix x :: "string \<times> string \<times> string"
    obtain name key u where x: "x = (name, key, u)" by (cases x)
    from get_price_ok [OF assms(1,2), of pf key "[]"]
    show "\<exists>y. (\<lambda>(name, key, u). bindE (get_price pf c key ''price_avg'' [])
                               (\<lambda>p. Inr (name, p, u))) x = Inr y"
      by (auto simp: x)
  qed
  from mapE_ok [OF this] obtain src where
    src: "mapE (\<lambda>(name, key, u). bindE (get_price pf c key ''price_avg'' [])
                 (\<lambda>p. Inr (name, p, u))) source_keys = Inr src" ..
  from grade_rows_ok [of "calc_tin_ore pf c"] ok(1) obtain tin where
    tin: "grade_rows (calc_tin_ore pf c)
            [(''60%'', 60), (''65%'', 65), (''70%'', 70), (''75%'', 75)] = Inr tin"
      "map fst tin = [''60%'', ''65%'', ''70%'', ''75%'']" by fastforce
  from grade_rows_ok [of "calc_coltan pf c"] ok(2) obtain coltan where
    coltan: "grade_rows (calc_coltan pf c)
            [(''20%'', 20), (''25%'', 25), (''30%'', 30), (''35%'', 35)] = Inr coltan"
      "map fst coltan = [''20%'', ''25%'', ''30%'', ''35%'']" by fastforce
  from grade_rows_ok [of "calc_monazite pf c"] ok(3) obtain monazite where
    monazite: "grade_rows (calc_monazite pf c)
            [(''30%'', 30), (''40%'', 40), (''45%'', 45), (''50%'', 50), (''60%'', 60)]
              = Inr monazite"
      "map fst monazite = [''30%'', ''40%'', ''45%'', ''50%'', ''60%'']" by fastforce
  from ok(4) obtain titanium where titanium: "calc_titanium pf c = Inr titanium" ..
  from ok(5) obtain zircon where zircon: "calc_zircon pf c = Inr zircon" ..
  from grade_rows_ok [of "calc_spodumene pf c"] ok(6) obtain spodumene where
    spodumene: "grade_rows (calc_spodumene pf c)
            [(''3%'', 3), (''4%'', 4), (''5%'', 5), (''6%'', 6)] = Inr spodumene"
      "map fst spodumene = [''3%'', ''4%'', ''5%'', ''6%'']" by fastforce
  from grade_rows_ok [of "calc_lepidolite pf c"] ok(7) obtain lepidolite where
    lepidolite: "grade_rows (calc_lepidolite pf c)
            [(''2.0%'', 2), (''2.5%'', 25 / 10), (''3.0%'', 3)] = Inr lepidolite"
      "map fst lepidolite = [''2.0%'', ''2.5%'', ''3.0%'']" by fastforce
  from grade_rows_ok [of "calc_lead_ore pf c"] ok(8) obtain lead_ore where
    lead_ore: "grade_rows (calc_lead_ore pf c)
            [(''40%'', 40), (''50%'', 50), (''60%'', 60)] = Inr lead_ore"
      "map fst lead_ore = [''40%'', ''50%'', ''60%'']" by fastforce
  from grade_rows_ok [of "calc_zinc_ore pf c"] ok(9) obtain zinc_ore where
    zinc_ore: "grade_rows (calc_zinc_ore pf c)
            [(''40%'', 40), (''50%'', 50), (''60%'', 60)] = Inr zinc_ore"
      "map fst zinc_ore = [''40%'', ''50%'', ''60%'']" by fastforce
  have m1: "list_all (\<lambda>(label, v). v = 0) tin"
    if "get_price pf c ''tin'' ''price_avg'' [] = Inr None"
    using grade_rows_zero [OF zero(1) tin(1)] that by simp
  have m2: "list_all (\<lambda>(label, v). v = 0) coltan"
    if "get_price pf c ''tantalum_oxide'' ''price_avg'' [] = Inr None"
    using grade_rows_zero [OF zero(2) coltan(1)] that by simp
  have m3: "list_all (\<lambda>(label, v). v = 0) monazite"
    if "get_price pf c ''monazite_concentrate'' ''price_avg''
          [''monazite'', ''monazite_concentrate''] = Inr None"
    using grade_rows_zero [OF zero(3) monazite(1)] that by simp
  have m4: "py_round titanium = 0"
    if "get_price pf c ''titanium_concentrate'' ''price_avg'' [] = Inr None"
    using zero(4) [OF that] titanium by (simp add: py_round_zero)
  have m5: "py_round zircon = 0"
    if "get_price pf c ''zircon_sand'' ''price_avg'' [] = Inr None"
    using zero(5) [OF that] zircon by (simp add: py_round_zero)
  have m6: "list_all (\<lambda>(label, v). v = 0) spodumene"
    if "get_price pf c ''spodumene'' ''price_avg'' [] = Inr None"
    using grade_rows_zero [OF zero(6) spodumene(1)] that by simp
  have m7: "list_all (\<lambda>(label, v). v = 0) lepidolite"
    if "get_price pf c ''lithium_carbonate'' ''price_avg'' [] = Inr None"
    using grade_rows_zero [OF zero(7) lepidolite(1)] that by simp
  have m8: "list_all (\<lambda>(label, v). v = 0) lead_ore"
    if "get_price pf c ''lead'' ''price_avg'' [] = Inr None"
    using grade_rows_zero [OF zero(8) lead_ore(1)] that by simp
  have m9: "list_all (\<lambda>(label, v). v = 0) zinc_ore"
    if "get_price pf c ''zinc'' ''price_avg'' [] = Inr None"
    using grade_rows_zero [OF zero(9) zinc_ore(1)] that by simp
  from lepidolite(1) have lepidolite':
    "grade_rows (calc_lepidolite pf c) [(''2.0%'', 2), (''2.5%'', 5 / 2), (''3.0%'', 3)]
       = Inr lepidolite" by simp
  show ?thesis
    by (simp add: calculate_all_def src tin coltan monazite titanium zircon spodumene
        lepidolite' lepidolite(2) lead_ore zinc_ore table_shape_def full_shape_def
        strategy_keys_def all_missing_def m1 m2 m3 m4 m5 m6 m7 m8 m9)
qed

lemma int_fits_factor: "int_fits (216 * i) \<Longrightarrow> int_fits i"
  unfolding int_fits_def by (simp add: abs_mult)

lemma usd_cny_rate:
  assumes "usd_cny_ok x"
  shows "rate_num_ok (rate_of (case x of None \<Rightarrow> PDict [] | Some v \<Rightarrow> v) (PFloat 7))"
  using assms
  by (cases x rule: usd_cny_ok.cases) (simp_all add: rate_of_def split: option.splits)

lemma rate_num_resolved:
  assumes "rate_num_ok v"
  shows "\<exists>u fx ux. py_mul (PInt 216) v = Inr u \<and> float_operand u = Inr fx
           \<and> float_operand v = Inr ux"
proof (cases v)
  case (PFloat r)
  then show ?thesis
    by (simp add: py_mul_def int_to_float_def int_fits_small)
next
  case (PInt i)
  with assms have "int_fits (216 * i)" by simp
  moreover from this have "int_fits i" by (rule int_fits_factor)
  ultimately show ?thesis using PInt
    by (simp add: py_mul_def int_to_float_def)
qed (use assms in simp_all)

lemma init_resolved:
  assumes "usd_cny_ok x"
    and "py_get pd ''exchange_rates'' (PDict []) = Inr (PDict er)"
    and "map_of er ''usd_cny'' = x"
    and "py_get pd ''smm_prices'' (PDict []) = Inr (PDict m)"
  shows "\<exists>c fx ux. init pd = Inr c \<and> smm c = PDict m \<and> float_operand (USD_NGN c) = Inr fx
           \<and> float_operand (USD_CNY c) = Inr ux \<and> CNY_NGN c = PInt 216"
proof -
  from rate_num_resolved [OF usd_cny_rate [OF assms(1)]] obtain u fx ux where
    "py_mul (PInt 216) (rate_of (case x of None \<Rightarrow> PDict [] | Some v \<Rightarrow> v) (PFloat 7)) = Inr u"
    "float_operand u = Inr fx"
    "float_operand (rate_of (case x of None \<Rightarrow> PDict [] | Some v \<Rightarrow> v) (PFloat 7)) = Inr ux"
    by blast
  then show ?thesis
    by (simp add: init_def init_with_def CNY_NGN_OVERRIDE_def assms(2,3,4) Let_def)
qed

lemma init_ok:
  assumes "wf_snapshot pd"
  shows "\<exists>c m fx ux. init pd = Inr c \<and> smm c = PDict m \<and> list_all (\<lambda>(k, v). record_ok v) m
           \<and> float_operand (USD_NGN c) = Inr fx \<and> float_operand (USD_CNY c) = Inr ux
           \<and> CNY_NGN c = PInt 216"
proof -
  from assms obtain entries where pd: "pd = PDict entries"
    by (cases pd) (simp_all add: wf_snapshot_def)
  from assms pd obtain er where
    er: "py_get pd ''exchange_rates'' (PDict []) = Inr (PDict er)"
      "usd_cny_ok (map_of er ''usd_cny'')"
    by (cases "map_of entries ''exchange_rates''")
       (auto simp: wf_snapshot_def split: pyval.splits)
  from assms pd obtain m where
    m: "py_get pd ''smm_prices'' (PDict []) = Inr (PDict m)"
      "list_all (\<lambda>(k, v). record_ok v) m"
    by (cases "map_of entries ''smm_prices''")
       (auto simp: wf_snapshot_def split: pyval.splits)
  from init_resolved [OF er(2) er(1) refl m(1)] m(2) show ?thesis by blast
qed

lemma null_rate_raises:
  "init null_rate_snapshot = Inl TypeError"
  by (simp add: init_def init_with_def CNY_NGN_OVERRIDE_def null_rate_snapshot_def
        rate_of_def py_mul_def Let_def)

section \<open>Properties of the calculator\<close>

subsection \<open>Tin ore\<close>

text \<open>
  Claim C1. When \<^verbatim>\<open>_get_price("tin")\<close> returns a usable price \<open>p\<close> and the resolved
  USD/NGN is a number \<open>fx\<close>, \<^verbatim>\<open>calc_tin_ore(g)\<close> returns
  \<open>((p * g / 100) * fx - 80309) / 1.13 / 1000\<close>. With \<open>p = 30000\<close>, \<open>g = 70\<close>,
  CNY/NGN 216 and USD/CNY 7.504 (so USD/NGN is their product), the result rounded by
  \<^verbatim>\<open>round(x, 0)\<close> is 30051.
\<close>

theorem C1_calc_tin_ore:
  assumes "get_price pf c ''tin'' ''price_avg'' [] = Inr (Some p)"
    and "p \<noteq> 0"
    and "float_operand (USD_NGN c) = Inr fx"
  shows "calc_tin_ore pf c g = Inr ((p * (g / 100) * fx - 80309) / (113 / 100) / 1000)
       \<and> (p = 30000 \<and> g = 70 \<and> CNY_NGN c = PInt 216 \<and> USD_CNY c = PFloat (7504 / 1000)
            \<and> py_mul (CNY_NGN c) (USD_CNY c) = Inr (USD_NGN c)
          \<longrightarrow> bindE (calc_tin_ore pf c g) (\<lambda>v. Inr (py_round v)) = Inr 30051)"
proof -
  have formula: "calc_tin_ore pf c g = Inr ((p * (g / 100) * fx - 80309) / (113 / 100) / 1000)"
    using assms
    by (simp add: calc_tin_ore_def float_mul_Inr LOGISTICS_COST_SEA_def VAT_RATE_def)
  have example: "bindE (calc_tin_ore pf c g) (\<lambda>v. Inr (py_round v)) = Inr 30051"
    if "p = 30000" "g = 70" "CNY_NGN c = PInt 216" "USD_CNY c = PFloat (7504 / 1000)"
      "py_mul (CNY_NGN c) (USD_CNY c) = Inr (USD_NGN c)"
  proof -
    from that have "USD_NGN c = PFloat (216 * (7504 / 1000))"
      by (simp add: py_mul_def int_to_float_def int_fits_small)
    with assms(3) have "fx = 1620864 / 1000" by simp
    with formula that show ?thesis
      by (simp add: py_round_def)
  qed
  from formula example show ?thesis by blast
qed

theorem C1_calc_tin_ore_witness:
  "get_price no_parse example_calculator ''tin'' ''price_avg'' [] = Inr (Some 30000)
   \<and> (30000::real) \<noteq> 0
   \<and> float_operand (USD_NGN example_calculator) = Inr (1620864 / 1000)
   \<and> py_mul (CNY_NGN example_calculator) (USD_CNY example_calculator)
       = Inr (USD_NGN example_calculator)
   \<and> calc_tin_ore no_parse example_calculator 70 = Inr (6791567 / 226)
   \<and> bindE (calc_tin_ore no_parse example_calculator 70) (\<lambda>v. Inr (py_round v)) = Inr 30051
   \<and> bindE (run no_parse example_snapshot) (\<lambda>r. Inr (price_at r ''tin_ore'' ''70%''))
       = Inr (Some 30051)"
proof -
  have h1: "get_price no_parse example_calculator ''tin'' ''price_avg'' [] = Inr (Some 30000)"
    by (rule example_prices)
  have h2: "(30000::real) \<noteq> 0" by simp
  have h3: "float_operand (USD_NGN example_calculator) = Inr (1620864 / 1000)" by simp
  have h4: "py_mul (CNY_NGN example_calculator) (USD_CNY example_calculator)
       = Inr (USD_NGN example_calculator)"
    by (simp add: py_mul_def int_to_float_def int_fits_small)
  have h5: "bindE (run no_parse example_snapshot) (\<lambda>r. Inr (price_at r ''tin_ore'' ''70%''))
       = Inr (Some 30051)"
    using run_example [of no_parse] by (cases "run no_parse example_snapshot") simp_all
  from C1_calc_tin_ore [OF h1 h2 h3, of 70] h1 h3 h4 h5 show ?thesis
    by (simp add: py_round_def)
qed

subsection \<open>Resolved exchange rates\<close>

text \<open>
  Claim C2. Whenever the constructor returns, whatever the override and whatever
  exchange-rate entries the snapshot holds, the resolved USD/NGN is exactly the product
  \<^verbatim>\<open>CNY_NGN * USD_CNY\<close>; with the configured override CNY/NGN is 216. The snapshot's own
  \<^verbatim>\<open>usd_ngn\<close> has no influence: two snapshots that differ only in that entry give the
  same calculator (up to the stored reference to the snapshot itself), or both raise.
\<close>

theorem C2_usd_ngn_is_product:
  "(init_with ovr pd = Inr c \<longrightarrow> py_mul (CNY_NGN c) (USD_CNY c) = Inr (USD_NGN c))
   \<and> (init pd = Inr c \<longrightarrow> CNY_NGN c = PInt 216 \<and> py_mul (PInt 216) (USD_CNY c) = Inr (USD_NGN c))
   \<and> (map_of entries ''exchange_rates'' = Some (PDict er)
        \<and> map_of entries' ''exchange_rates'' = Some (PDict er')
        \<and> (\<forall>k. k \<noteq> ''exchange_rates'' \<longrightarrow> map_of entries' k = map_of entries k)
        \<and> (\<forall>k. k \<noteq> ''usd_ngn'' \<longrightarrow> map_of er' k = map_of er k)
      \<longrightarrow> init_with ovr (PDict entries')
            = bindE (init_with ovr (PDict entries))
                (\<lambda>c. Inr (c \<lparr> price_data := PDict entries' \<rparr>)))"
proof -
  have product: "py_mul (CNY_NGN c) (USD_CNY c) = Inr (USD_NGN c)" if "init_with ovr pd = Inr c"
    using that by (rule init_with_product)
  have configured: "CNY_NGN c = PInt 216 \<and> py_mul (PInt 216) (USD_CNY c) = Inr (USD_NGN c)"
    if h: "init pd = Inr c"
  proof -
    from h have "CNY_NGN c = PInt 216"
      by (auto simp: init_def init_with_def CNY_NGN_OVERRIDE_def bindE_eq_Inr Let_def)
    moreover from h have "py_mul (CNY_NGN c) (USD_CNY c) = Inr (USD_NGN c)"
      unfolding init_def by (rule init_with_product)
    ultimately show ?thesis by simp
  qed
  have independent: "init_with ovr (PDict entries')
            = bindE (init_with ovr (PDict entries))
                (\<lambda>c. Inr (c \<lparr> price_data := PDict entries' \<rparr>))"
    if e: "map_of entries ''exchange_rates'' = Some (PDict er)"
      and e': "map_of entries' ''exchange_rates'' = Some (PDict er')"
      and top: "\<forall>k. k \<noteq> ''exchange_rates'' \<longrightarrow> map_of entries' k = map_of entries k"
      and rates: "\<forall>k. k \<noteq> ''usd_ngn'' \<longrightarrow> map_of er' k = map_of er k"
  proof -
    from top have smm_eq: "map_of entries' ''smm_prices'' = map_of entries ''smm_prices''"
      by simp
    note r = rate_entry_agree [OF rates]
    show ?thesis
    proof (cases ovr)
      case None
      show ?thesis
        by (cases "py_mul (rate_of (case map_of er ''cny_ngn'' of None \<Rightarrow> PDict [] | Some v \<Rightarrow> v)
                             (PFloat (21235 / 100)))
                    (rate_of (case map_of er ''usd_cny'' of None \<Rightarrow> PDict [] | Some v \<Rightarrow> v)
                             (PFloat 7))")
          (simp_all add: init_with_def None e e' smm_eq r Let_def)
    next
      case (Some v)
      show ?thesis
        by (cases "py_mul v
                    (rate_of (case map_of er ''usd_cny'' of None \<Rightarrow> PDict [] | Some v \<Rightarrow> v)
                             (PFloat 7))")
          (simp_all add: init_with_def Some e e' smm_eq r Let_def)
    qed
  qed
  from product configured independent show ?thesis by blast
qed

theorem C2_usd_ngn_is_product_witness:
  "init example_snapshot = Inr example_calculator
   \<and> py_mul (PInt 216) (USD_CNY example_calculator) = Inr (USD_NGN example_calculator)
   \<and> USD_NGN example_calculator = PFloat (216 * (7504 / 1000))
   \<and> map_of [(''date'', PStr ''2026-01-15''), (''smm_prices'', PDict example_smm),
              (''exchange_rates'', PDict example_rates)] ''exchange_rates''
        = Some (PDict example_rates)
   \<and> init (PDict [(''exchange_rates'',
                      PDict [(''usd_ngn'', PDict [(''rate'', PFloat 9999)]),
                             (''usd_cny'', PFloat (7504 / 1000))]),
                   (''date'', PStr ''2026-01-15''), (''smm_prices'', PDict example_smm)])
       = Inr (example_calculator \<lparr> price_data :=
                PDict [(''exchange_rates'',
                          PDict [(''usd_ngn'', PDict [(''rate'', PFloat 9999)]),
                                 (''usd_cny'', PFloat (7504 / 1000))]),
                       (''date'', PStr ''2026-01-15''), (''smm_prices'', PDict example_smm)] \<rparr>)"
proof -
  let ?entries = "[(''date'', PStr ''2026-01-15''), (''smm_prices'', PDict example_smm),
                   (''exchange_rates'', PDict example_rates)]"
  let ?er' = "[(''usd_ngn'', PDict [(''rate'', PFloat 9999)]),
               (''usd_cny'', PFloat (7504 / 1000))]"
  let ?entries' = "[(''exchange_rates'', PDict ?er'),
                    (''date'', PStr ''2026-01-15''), (''smm_prices'', PDict example_smm)]"
  note inst = C2_usd_ngn_is_product
    [of CNY_NGN_OVERRIDE example_snapshot example_calculator "?entries" example_rates
        "?entries'" "?er'"]
  have i: "init_with CNY_NGN_OVERRIDE example_snapshot = Inr example_calculator"
    using init_example by (simp add: init_def)
  have h1: "map_of ?entries ''exchange_rates'' = Some (PDict example_rates)" by simp
  have h2: "map_of ?entries' ''exchange_rates'' = Some (PDict ?er')" by simp
  have h3: "\<forall>k. k \<noteq> ''exchange_rates'' \<longrightarrow> map_of ?entries' k = map_of ?entries k" by simp
  have h4: "\<forall>k. k \<noteq> ''usd_ngn'' \<longrightarrow> map_of ?er' k = map_of example_rates k"
    by (simp add: example_rates_def)
  from inst i init_example h1 h2 h3 h4
  have "py_mul (PInt 216) (USD_CNY example_calculator) = Inr (USD_NGN example_calculator)"
    and "init_with CNY_NGN_OVERRIDE (PDict ?entries')
          = bindE (init_with CNY_NGN_OVERRIDE (PDict ?entries))
              (\<lambda>c. Inr (c \<lparr> price_data := PDict ?entries' \<rparr>))"
    by blast+
  with i init_example h1 show ?thesis
    by (simp add: init_def example_snapshot_def)
qed

subsection \<open>Price lookup and a stored zero\<close>

text \<open>
  Claim C3, evaluated where the code departs from it. The record of the primary key
  \<^verbatim>\<open>monazite_concentrate\<close> holds no \<^verbatim>\<open>price_avg\<close> and a \<^verbatim>\<open>price\<close> of 0; the fallback
  key \<^verbatim>\<open>monazite\<close> holds a usable quote of 7504.35. The claim makes the stored 0 count
  as absent, so the lookup should go on and return 7504.35. The code returns None at
  the primary key without trying the fallback keys, and \<^verbatim>\<open>calc_monazite\<close> returns 0.
\<close>

theorem C3_zero_price_ends_lookup:
  "init zero_price_snapshot = Inr zero_price_calculator
   \<and> get_price no_parse zero_price_calculator ''monazite'' ''price_avg'' []
       = Inr (Some (750435 / 100))
   \<and> get_price no_parse zero_price_calculator ''monazite_concentrate'' ''price_avg''
        [''monazite'', ''monazite_concentrate''] = Inr None
   \<and> calc_monazite no_parse zero_price_calculator 60 = Inr 0"
proof -
  have i: "init zero_price_snapshot = Inr zero_price_calculator"
    by (simp add: init_def init_with_def CNY_NGN_OVERRIDE_def zero_price_snapshot_def
        zero_price_calculator_def rate_of_def py_mul_def int_to_float_def int_fits_small Let_def)
  have s: "smm zero_price_calculator = PDict zero_price_smm"
    by (simp add: zero_price_calculator_def)
  have fb: "get_price no_parse zero_price_calculator ''monazite'' ''price_avg'' []
       = Inr (Some (750435 / 100))"
    by (simp add: lookup_defs s zero_price_smm_def)
  have g: "get_price no_parse zero_price_calculator ''monazite_concentrate'' ''price_avg''
        [''monazite'', ''monazite_concentrate''] = Inr None"
    by (simp add: lookup_defs s zero_price_smm_def)
  from i fb g show ?thesis by (simp add: calc_monazite_def)
qed

subsection \<open>The clamp of monazite\<close>

text \<open>
  Claim C4. For monazite, whenever the value before VAT (the quote in NGN scaled by
  \<open>g / 60\<close>, minus the sea logistics cost) is at most 0, \<^verbatim>\<open>calc_monazite\<close> returns
  exactly 0; it never returns a negative number. Spodumene and lepidolite have no such
  clamp: when their value before VAT is negative, the negative price is returned.
\<close>

theorem C4_monazite_clamp:
  "(get_price pf c ''monazite_concentrate'' ''price_avg''
       [''monazite'', ''monazite_concentrate''] = Inr (Some p)
      \<and> float_operand (USD_NGN c) = Inr fx \<and> p * fx * (g / 60) - 80309 \<le> 0
     \<longrightarrow> calc_monazite pf c g = Inr 0)
   \<and> (calc_monazite pf c g = Inr r \<longrightarrow> 0 \<le> r)
   \<and> (get_price pf c ''spodumene'' ''price_avg'' [] = Inr (Some p) \<and> p \<noteq> 0
      \<and> float_operand (USD_NGN c) = Inr fx \<and> p * fx * (g / 6) - 80309 < 0
     \<longrightarrow> calc_spodumene pf c g = Inr ((p * fx * (g / 6) - 80309) / (113 / 100) * (6 / 10))
        \<and> (p * fx * (g / 6) - 80309) / (113 / 100) * (6 / 10) < 0)
   \<and> (get_price pf c ''lithium_carbonate'' ''price_avg'' [] = Inr (Some p) \<and> p \<noteq> 0
      \<and> float_operand (USD_CNY c) = Inr ux \<and> float_operand (CNY_NGN c) = Inr nx
      \<and> (p * ux - 45000) / 20 * (g / (25 / 10)) * nx - 80309 < 0
     \<longrightarrow> calc_lepidolite pf c g
          = Inr (((p * ux - 45000) / 20 * (g / (25 / 10)) * nx - 80309) / (113 / 100) * (3 / 10))
        \<and> ((p * ux - 45000) / 20 * (g / (25 / 10)) * nx - 80309) / (113 / 100) * (3 / 10) < 0)"
proof -
  have clamp: "calc_monazite pf c g = Inr 0"
    if "get_price pf c ''monazite_concentrate'' ''price_avg''
          [''monazite'', ''monazite_concentrate''] = Inr (Some p)"
      "float_operand (USD_NGN c) = Inr fx" "p * fx * (g / 60) - 80309 \<le> 0"
    using that
    by (simp add: calc_monazite_def float_mul_Inr LOGISTICS_COST_SEA_def Let_def)
  have nonneg: "0 \<le> r" if "calc_monazite pf c g = Inr r"
    using that
    by (auto simp: calc_monazite_def bindE_eq_Inr Let_def VAT_RATE_def split: if_splits)
  have neg: "x / (113 / 100) * d < 0" if "x < 0" "0 < d" for x d :: real
    using that by (simp add: mult_less_0_iff divide_less_0_iff)
  have spod: "calc_spodumene pf c g = Inr ((p * fx * (g / 6) - 80309) / (113 / 100) * (6 / 10))
        \<and> (p * fx * (g / 6) - 80309) / (113 / 100) * (6 / 10) < 0"
    if "get_price pf c ''spodumene'' ''price_avg'' [] = Inr (Some p)" "p \<noteq> 0"
      "float_operand (USD_NGN c) = Inr fx" "p * fx * (g / 6) - 80309 < 0"
  proof -
    from that(1-3) have "calc_spodumene pf c g
        = Inr ((p * fx * (g / 6) - 80309) / (113 / 100) * (6 / 10))"
      by (simp add: calc_spodumene_def float_mul_Inr LOGISTICS_COST_SEA_def VAT_RATE_def
          SPODUMENE_DISCOUNT_def Let_def)
    moreover from that(4) have "(p * fx * (g / 6) - 80309) / (113 / 100) * (6 / 10) < 0"
      by (rule neg) simp
    ultimately show ?thesis by simp
  qed
  have lepi: "calc_lepidolite pf c g
          = Inr (((p * ux - 45000) / 20 * (g / (25 / 10)) * nx - 80309) / (113 / 100) * (3 / 10))
        \<and> ((p * ux - 45000) / 20 * (g / (25 / 10)) * nx - 80309) / (113 / 100) * (3 / 10) < 0"
    if "get_price pf c ''lithium_carbonate'' ''price_avg'' [] = Inr (Some p)" "p \<noteq> 0"
      "float_operand (USD_CNY c) = Inr ux" "float_operand (CNY_NGN c) = Inr nx"
      "(p * ux - 45000) / 20 * (g / (25 / 10)) * nx - 80309 < 0"
  proof -
    from that(1-4) have "calc_lepidolite pf c g
          = Inr (((p * ux - 45000) / 20 * (g / (25 / 10)) * nx - 80309) / (113 / 100) * (3 / 10))"
      by (simp add: calc_lepidolite_def float_mul_Inr LOGISTICS_COST_SEA_def VAT_RATE_def
          LEPIDOLITE_DISCOUNT_def LEPIDOLITE_PROCESSING_COST_CNY_def
          LEPIDOLITE_TONS_PER_CARBONATE_def LEPIDOLITE_BASE_GRADE_def Let_def)
    moreover from that(5)
    have "((p * ux - 45000) / 20 * (g / (25 / 10)) * nx - 80309) / (113 / 100) * (3 / 10) < 0"
      by (rule neg) simp
    ultimately show ?thesis by simp
  qed
  from clamp nonneg spod lepi show ?thesis by blast
qed

theorem C4_monazite_clamp_witness:
  "get_price no_parse low_price_calculator ''monazite_concentrate'' ''price_avg''
       [''monazite'', ''monazite_concentrate''] = Inr (Some 90)
   \<and> float_operand (USD_NGN low_price_calculator) = Inr (1620864 / 1000)
   \<and> (90 * (1620864 / 1000) * (30 / 60) - 80309 :: real) \<le> 0
   \<and> calc_monazite no_parse low_price_calculator 30 = Inr 0
   \<and> get_price no_parse low_price_calculator ''spodumene'' ''price_avg'' [] = Inr (Some 90)
   \<and> calc_spodumene no_parse low_price_calculator 3
        = Inr ((90 * (1620864 / 1000) * (3 / 6) - 80309) / (113 / 100) * (6 / 10))
   \<and> ((90 * (1620864 / 1000) * (3 / 6) - 80309) / (113 / 100) * (6 / 10) :: real) < 0
   \<and> get_price no_parse low_price_calculator ''lithium_carbonate'' ''price_avg'' []
        = Inr (Some 5000)
   \<and> calc_lepidolite no_parse low_price_calculator (25 / 10)
        = Inr (((5000 * (7504 / 1000) - 45000) / 20 * ((25 / 10) / (25 / 10)) * 216 - 80309)
                 / (113 / 100) * (3 / 10))"
proof -
  have fx: "float_operand (USD_NGN low_price_calculator) = Inr (1620864 / 1000)" by simp
  have ux: "float_operand (USD_CNY low_price_calculator) = Inr (7504 / 1000)" by simp
  have nx: "float_operand (CNY_NGN low_price_calculator) = Inr 216"
    by (simp add: int_to_float_def int_fits_small)
  have m: "(90 * (1620864 / 1000) * (30 / 60) - 80309 :: real) \<le> 0" by simp
  have sp: "(90 * (1620864 / 1000) * (3 / 6) - 80309 :: real) < 0" by simp
  have le: "((5000 * (7504 / 1000) - 45000) / 20 * ((25 / 10) / (25 / 10)) * 216 - 80309 :: real)
              < 0" by simp
  from C4_monazite_clamp
         [of no_parse low_price_calculator 90 "1620864 / 1000" 30 0 "7504 / 1000" 216]
       low_prices(1) [of no_parse] fx m
  have w1: "calc_monazite no_parse low_price_calculator 30 = Inr 0" by blast
  from C4_monazite_clamp
         [of no_parse low_price_calculator 90 "1620864 / 1000" 3 0 "7504 / 1000" 216]
       low_prices(2) [of no_parse] fx sp
  have w2: "calc_spodumene no_parse low_price_calculator 3
        = Inr ((90 * (1620864 / 1000) * (3 / 6) - 80309) / (113 / 100) * (6 / 10))
     \<and> ((90 * (1620864 / 1000) * (3 / 6) - 80309) / (113 / 100) * (6 / 10) :: real) < 0"
    by simp
  from C4_monazite_clamp
         [of no_parse low_price_calculator 5000 "1620864 / 1000" "25 / 10" 0 "7504 / 1000" 216]
       low_prices(3) [of no_parse] ux nx le
  have w3: "calc_lepidolite no_parse low_price_calculator (25 / 10)
        = Inr (((5000 * (7504 / 1000) - 45000) / 20 * ((25 / 10) / (25 / 10)) * 216 - 80309)
                 / (113 / 100) * (3 / 10))"
    by simp
  from low_prices [of no_parse] fx m w1 w2 w3 show ?thesis by simp
qed

subsection \<open>Coltan\<close>

text \<open>
  Claim C5 as stated fails at its own example. With tantalum oxide at 65 USD/kg and
  USD/NGN \<open>216 * 7.504 = 1620.864\<close>, the price per grade point is about 817.604, which is
  not 817.9 to one decimal, and \<^verbatim>\<open>calc_coltan(30)\<close> is about 24528.12, which rounds to
  24528 and lies more than 9 below 24538.
\<close>

theorem C5_coltan_example_counterexample:
  "get_price no_parse example_calculator ''tantalum_oxide'' ''price_avg'' [] = Inr (Some 65)
   \<and> py_mul (PInt 216) (PFloat (7504 / 1000)) = Inr (USD_NGN example_calculator)
   \<and> calc_coltan no_parse example_calculator 30
       = Inr (30 * ((65 - 8) / (113 / 100) / 100 * (216 * (7504 / 1000))))
   \<and> 29 / 100 < \<bar>(65 - 8) / (113 / 100) / 100 * (216 * (7504 / 1000)) - 8179 / 10 :: real\<bar>
   \<and> py_round (30 * ((65 - 8) / (113 / 100) / 100 * (216 * (7504 / 1000)))) = 24528
   \<and> (9 :: real) < 24538 - 30 * ((65 - 8) / (113 / 100) / 100 * (216 * (7504 / 1000)))"
proof -
  have p: "get_price no_parse example_calculator ''tantalum_oxide'' ''price_avg'' []
             = Inr (Some 65)"
    by (rule example_prices)
  have fx: "py_mul (PInt 216) (PFloat (7504 / 1000)) = Inr (USD_NGN example_calculator)"
    by (simp add: py_mul_def int_to_float_def int_fits_small)
  have v: "calc_coltan no_parse example_calculator 30
       = Inr (30 * ((65 - 8) / (113 / 100) / 100 * (216 * (7504 / 1000))))"
    by (simp add: calc_coltan_def p float_mul_def COLTAN_AIR_COST_def VAT_RATE_def)
  have u: "29 / 100 < \<bar>(65 - 8) / (113 / 100) / 100 * (216 * (7504 / 1000)) - 8179 / 10 :: real\<bar>"
    by simp
  have r: "py_round (30 * ((65 - 8) / (113 / 100) / 100 * (216 * (7504 / 1000)))) = 24528"
    by (simp add: py_round_def)
  have d: "(9 :: real) < 24538 - 30 * ((65 - 8) / (113 / 100) / 100 * (216 * (7504 / 1000)))"
    by simp
  from p fx v u r d show ?thesis by blast
qed

text \<open>
  Claim C5, amended. When \<^verbatim>\<open>_get_price("tantalum_oxide")\<close> returns a usable price \<open>p\<close> and
  the resolved USD/NGN is a number \<open>fx\<close>, \<^verbatim>\<open>calc_coltan(g)\<close> returns
  \<open>g * ((p - 8) / 1.13 / 100 * fx)\<close>: the air cost is subtracted before the division by
  VAT and there is no sea-logistics term. With \<open>p = 65\<close>, \<open>g = 30\<close>, CNY/NGN 216 and
  USD/CNY 7.504, the price per grade point is 817.6 to one decimal and the result
  rounds to 24528.
\<close>

theorem C5_calc_coltan:
  assumes "get_price pf c ''tantalum_oxide'' ''price_avg'' [] = Inr (Some p)"
    and "p \<noteq> 0"
    and "float_operand (USD_NGN c) = Inr fx"
  shows "calc_coltan pf c g = Inr (g * ((p - 8) / (113 / 100) / 100 * fx))
       \<and> (p = 65 \<and> g = 30 \<and> CNY_NGN c = PInt 216 \<and> USD_CNY c = PFloat (7504 / 1000)
            \<and> py_mul (CNY_NGN c) (USD_CNY c) = Inr (USD_NGN c)
          \<longrightarrow> \<bar>(p - 8) / (113 / 100) / 100 * fx - 8176 / 10\<bar> < 5 / 100
              \<and> bindE (calc_coltan pf c g) (\<lambda>v. Inr (py_round v)) = Inr 24528)"
proof -
  have formula: "calc_coltan pf c g = Inr (g * ((p - 8) / (113 / 100) / 100 * fx))"
    using assms
    by (simp add: calc_coltan_def float_mul_Inr COLTAN_AIR_COST_def VAT_RATE_def)
  have example: "\<bar>(p - 8) / (113 / 100) / 100 * fx - 8176 / 10\<bar> < 5 / 100
              \<and> bindE (calc_coltan pf c g) (\<lambda>v. Inr (py_round v)) = Inr 24528"
    if "p = 65" "g = 30" "CNY_NGN c = PInt 216" "USD_CNY c = PFloat (7504 / 1000)"
      "py_mul (CNY_NGN c) (USD_CNY c) = Inr (USD_NGN c)"
  proof -
    from that have "USD_NGN c = PFloat (216 * (7504 / 1000))"
      by (simp add: py_mul_def int_to_float_def int_fits_small)
    with assms(3) have "fx = 1620864 / 1000" by simp
    with formula that show ?thesis
      by (simp add: py_round_def)
  qed
  from formula example show ?thesis by blast
qed

theorem C5_calc_coltan_witness:
  "get_price no_parse example_calculator ''tantalum_oxide'' ''price_avg'' [] = Inr (Some 65)
   \<and> (65::real) \<noteq> 0
   \<and> float_operand (USD_NGN example_calculator) = Inr (1620864 / 1000)
   \<and> py_mul (CNY_NGN example_calculator) (USD_CNY example_calculator)
       = Inr (USD_NGN example_calculator)
   \<and> calc_coltan no_parse example_calculator 30
       = Inr (30 * ((65 - 8) / (113 / 100) / 100 * (1620864 / 1000)))
   \<and> bindE (calc_coltan no_parse example_calculator 30) (\<lambda>v. Inr (py_round v)) = Inr 24528
   \<and> bindE (run no_parse example_snapshot) (\<lambda>r. Inr (price_at r ''coltan'' ''30%''))
       = Inr (Some 24528)"
proof -
  have h1: "get_price no_parse example_calculator ''tantalum_oxide'' ''price_avg'' []
              = Inr (Some 65)"
    by (rule example_prices)
  have h2: "(65::real) \<noteq> 0" by simp
  have h3: "float_operand (USD_NGN example_calculator) = Inr (1620864 / 1000)" by simp
  have h4: "py_mul (CNY_NGN example_calculator) (USD_CNY example_calculator)
       = Inr (USD_NGN example_calculator)"
    by (simp add: py_mul_def int_to_float_def int_fits_small)
  have h5: "bindE (run no_parse example_snapshot) (\<lambda>r. Inr (price_at r ''coltan'' ''30%''))
       = Inr (Some 24528)"
    using run_example [of no_parse] by (cases "run no_parse example_snapshot") simp_all
  from C5_calc_coltan [OF h1 h2 h3, of 30] h1 h3 h4 h5 show ?thesis
    by (simp add: py_round_def)
qed

subsection \<open>A missing reference price\<close>

text \<open>
  Claim C6. For each of the nine strategies: when the lookup of its reference price
  returns None, the strategy returns 0 and raises nothing.
\<close>

theorem C6_missing_price_gives_zero:
  "(get_price pf c ''tin'' ''price_avg'' [] = Inr None \<longrightarrow> calc_tin_ore pf c g = Inr 0)
   \<and> (get_price pf c ''tantalum_oxide'' ''price_avg'' [] = Inr None
        \<longrightarrow> calc_coltan pf c g = Inr 0)
   \<and> (get_price pf c ''monazite_concentrate'' ''price_avg''
          [''monazite'', ''monazite_concentrate''] = Inr None
        \<longrightarrow> calc_monazite pf c g = Inr 0)
   \<and> (get_price pf c ''titanium_concentrate'' ''price_avg'' [] = Inr None
        \<longrightarrow> calc_titanium pf c = Inr 0)
   \<and> (get_price pf c ''zircon_sand'' ''price_avg'' [] = Inr None \<longrightarrow> calc_zircon pf c = Inr 0)
   \<and> (get_price pf c ''spodumene'' ''price_avg'' [] = Inr None
        \<longrightarrow> calc_spodumene pf c g = Inr 0)
   \<and> (get_price pf c ''lithium_carbonate'' ''price_avg'' [] = Inr None
        \<longrightarrow> calc_lepidolite pf c g = Inr 0)
   \<and> (get_price pf c ''lead'' ''price_avg'' [] = Inr None \<longrightarrow> calc_lead_ore pf c g = Inr 0)
   \<and> (get_price pf c ''zinc'' ''price_avg'' [] = Inr None \<longrightarrow> calc_zinc_ore pf c g = Inr 0)"
proof (intro conjI impI)
  assume "get_price pf c ''tin'' ''price_avg'' [] = Inr None"
  then show "calc_tin_ore pf c g = Inr 0"
    by (simp add: calc_tin_ore_def)
next
  assume "get_price pf c ''tantalum_oxide'' ''price_avg'' [] = Inr None"
  then show "calc_coltan pf c g = Inr 0"
    by (simp add: calc_coltan_def)
next
  assume "get_price pf c ''monazite_concentrate'' ''price_avg''
            [''monazite'', ''monazite_concentrate''] = Inr None"
  then show "calc_monazite pf c g = Inr 0"
    by (simp add: calc_monazite_def)
next
  assume "get_price pf c ''titanium_concentrate'' ''price_avg'' [] = Inr None"
  then show "calc_titanium pf c = Inr 0"
    by (simp add: calc_titanium_def)
next
  assume "get_price pf c ''zircon_sand'' ''price_avg'' [] = Inr None"
  then show "calc_zircon pf c = Inr 0"
    by (simp add: calc_zircon_def)
next
  assume "get_price pf c ''spodumene'' ''price_avg'' [] = Inr None"
  then show "calc_spodumene pf c g = Inr 0"
    by (simp add: calc_spodumene_def)
next
  assume "get_price pf c ''lithium_carbonate'' ''price_avg'' [] = Inr None"
  then show "calc_lepidolite pf c g = Inr 0"
    by (simp add: calc_lepidolite_def)
next
  assume "get_price pf c ''lead'' ''price_avg'' [] = Inr None"
  then show "calc_lead_ore pf c g = Inr 0"
    by (simp add: calc_lead_ore_def)
next
  assume "get_price pf c ''zinc'' ''price_avg'' [] = Inr None"
  then show "calc_zinc_ore pf c g = Inr 0"
    by (simp add: calc_zinc_ore_def)
qed

theorem C6_missing_price_gives_zero_witness:
  "get_price no_parse (example_calculator \<lparr> smm := PDict [] \<rparr>) ''tin'' ''price_avg'' [] = Inr None
   \<and> get_price no_parse (example_calculator \<lparr> smm := PDict [] \<rparr>) ''monazite_concentrate''
        ''price_avg'' [''monazite'', ''monazite_concentrate''] = Inr None
   \<and> calc_tin_ore no_parse (example_calculator \<lparr> smm := PDict [] \<rparr>) 70 = Inr 0
   \<and> calc_coltan no_parse (example_calculator \<lparr> smm := PDict [] \<rparr>) 70 = Inr 0
   \<and> calc_monazite no_parse (example_calculator \<lparr> smm := PDict [] \<rparr>) 70 = Inr 0
   \<and> calc_titanium no_parse (example_calculator \<lparr> smm := PDict [] \<rparr>) = Inr 0
   \<and> calc_zircon no_parse (example_calculator \<lparr> smm := PDict [] \<rparr>) = Inr 0
   \<and> calc_spodumene no_parse (example_calculator \<lparr> smm := PDict [] \<rparr>) 70 = Inr 0
   \<and> calc_lepidolite no_parse (example_calculator \<lparr> smm := PDict [] \<rparr>) 70 = Inr 0
   \<and> calc_lead_ore no_parse (example_calculator \<lparr> smm := PDict [] \<rparr>) 70 = Inr 0
   \<and> calc_zinc_ore no_parse (example_calculator \<lparr> smm := PDict [] \<rparr>) 70 = Inr 0"
proof -
  have none: "get_price no_parse (example_calculator \<lparr> smm := PDict [] \<rparr>) k ''price_avg'' ks
                = Inr None" for k ks
  proof -
    have "fallback_loop no_parse (example_calculator \<lparr> smm := PDict [] \<rparr>) ''price_avg'' ks
            = Inr None"
      by (induction ks) (simp_all add: attempt_def record_price_def py_or_def)
    then show ?thesis
      by (simp add: get_price_def attempt_def record_price_def py_or_def)
  qed
  from C6_missing_price_gives_zero
         [of no_parse "example_calculator \<lparr> smm := PDict [] \<rparr>" 70] none
  show ?thesis by simp
qed

subsection \<open>Malformed snapshots\<close>

text \<open>
  Claim C7 as stated fails. A snapshot whose tin \<^verbatim>\<open>price_avg\<close> is an object (an
  unexpected nested shape, not a number) passes the constructor, and \<^verbatim>\<open>calculate_all\<close>
  raises TypeError from \<^verbatim>\<open>float(price)\<close>: no table is returned.
\<close>

theorem C7_malformed_snapshot_counterexample:
  "init nested_price_snapshot = Inr nested_price_calculator
   \<and> calculate_all no_parse nested_price_calculator = Inl TypeError
   \<and> run no_parse nested_price_snapshot = Inl TypeError"
proof -
  have b: "init nested_price_snapshot = Inr nested_price_calculator"
    by (simp add: init_def init_with_def CNY_NGN_OVERRIDE_def nested_price_snapshot_def
        nested_price_calculator_def example_rates_def rate_of_def py_mul_def int_to_float_def
        int_fits_small Let_def)
  have "get_price no_parse nested_price_calculator ''tin'' ''price_avg'' [] = Inl TypeError"
    by (simp add: lookup_defs nested_price_calculator_def)
  then have d: "calculate_all no_parse nested_price_calculator = Inl TypeError"
    by (simp add: calculate_all_def source_keys_def)
  from b d show ?thesis by (simp add: run_def)
qed

text \<open>
  Claim C7, amended. For every well-formed snapshot (a mapping; \<^verbatim>\<open>exchange_rates\<close> absent
  or a mapping whose \<^verbatim>\<open>usd_cny\<close> is absent, a number, or a record whose \<^verbatim>\<open>rate\<close> is
  absent or a number; \<^verbatim>\<open>smm_prices\<close> absent or a mapping whose records, where they are
  mappings, hold under \<^verbatim>\<open>price_avg\<close> and \<^verbatim>\<open>price\<close> nothing, null or a number; an
  integer price converts to a double, and so does 216 times an integer rate), the
  constructor and \<^verbatim>\<open>calculate_all\<close> return without an exception, the table covers
  all nine commodities at all their grade labels, and a
  commodity whose reference price lookup returns None has the marker 0 at every label.
  Unknown keys, missing keys and records that are not mappings are tolerated.
\<close>

theorem C7_well_formed_snapshot_complete_table:
  assumes "wf_snapshot pd"
  shows "\<exists>c r. init pd = Inr c \<and> calculate_all pf c = Inr r \<and> run pf pd = Inr r
           \<and> table_shape r = full_shape
           \<and> (\<forall>(name, key, fbs) \<in> set strategy_keys.
                 get_price pf c key ''price_avg'' fbs = Inr None \<longrightarrow> all_missing r name)"
proof -
  from init_ok [OF assms] obtain c m fx ux where
    c: "init pd = Inr c" "smm c = PDict m" "list_all (\<lambda>(k, v). record_ok v) m"
      "float_operand (USD_NGN c) = Inr fx" "float_operand (USD_CNY c) = Inr ux"
      "CNY_NGN c = PInt 216"
    by blast
  from c(6) have nx: "float_operand (CNY_NGN c) = Inr 216"
    by (simp add: int_to_float_def int_fits_small)
  from calculate_all_ok [OF c(2) c(3) c(4) c(5) nx, of pf] obtain r where
    r: "calculate_all pf c = Inr r" "table_shape r = full_shape"
      "\<forall>(name, key, fbs) \<in> set strategy_keys.
         get_price pf c key ''price_avg'' fbs = Inr None \<longrightarrow> all_missing r name"
    by blast
  from c(1) r(1) have "run pf pd = Inr r" by (simp add: run_def)
  with c(1) r show ?thesis by blast
qed

theorem C7_well_formed_snapshot_complete_table_witness:
  "wf_snapshot tolerated_snapshot
   \<and> (\<exists>c r. init tolerated_snapshot = Inr c \<and> calculate_all no_parse c = Inr r
         \<and> run no_parse tolerated_snapshot = Inr r \<and> table_shape r = full_shape
         \<and> (\<forall>(name, key, fbs) \<in> set strategy_keys.
               get_price no_parse c key ''price_avg'' fbs = Inr None \<longrightarrow> all_missing r name))
   \<and> bindE (run no_parse tolerated_snapshot)
        (\<lambda>r. Inr (price_at r ''tin_ore'' ''70%'', price_at r ''spodumene'' ''3%''))
       = Inr (Some 30051, Some 0)"
proof -
  have wf: "wf_snapshot tolerated_snapshot"
    by (simp add: wf_snapshot_def tolerated_snapshot_def int_fits_small)
  have ex: "\<exists>c r. init tolerated_snapshot = Inr c \<and> calculate_all no_parse c = Inr r
         \<and> run no_parse tolerated_snapshot = Inr r \<and> table_shape r = full_shape
         \<and> (\<forall>(name, key, fbs) \<in> set strategy_keys.
               get_price no_parse c key ''price_avg'' fbs = Inr None \<longrightarrow> all_missing r name)"
    using wf by (rule C7_well_formed_snapshot_complete_table)
  have i: "init tolerated_snapshot
        = Inr (example_calculator \<lparr> price_data := tolerated_snapshot,
                 smm := PDict [(''tin'', PDict [(''price_avg'', PInt 30000), (''unit'', PStr ''USD/mt'')]),
                      (''gold'', PInt 5),
                      (''spodumene'', PDict [(''price_avg'', PNone), (''change'', PNone)]),
                      (''unknown_ore'', PDict [(''comment'', PStr ''n/a'')])] \<rparr>)"
    by (simp add: init_def init_with_def CNY_NGN_OVERRIDE_def tolerated_snapshot_def
        example_calculator_def rate_of_def py_mul_def int_to_float_def int_fits_small Let_def)
  have v: "bindE (run no_parse tolerated_snapshot)
        (\<lambda>r. Inr (price_at r ''tin_ore'' ''70%'', price_at r ''spodumene'' ''3%''))
       = Inr (Some 30051, Some 0)"
    unfolding run_def i
    by (simp add: calculate_all_def source_keys_def grade_rows_def lookup_defs int_fits_small
        calc_tin_ore_def calc_coltan_def calc_monazite_def calc_titanium_def calc_zircon_def
        calc_spodumene_def calc_lepidolite_def calc_lead_ore_def calc_zinc_ore_def
        float_mul_def LOGISTICS_COST_SEA_def VAT_RATE_def py_round_def price_at_def)
  from wf ex v show ?thesis by blast
qed

subsection \<open>Linear ores and the grade\<close>




subsection \<open>Lepidolite and the carbonate price\<close>




subsection \<open>A record that is not a mapping\<close>

text \<open>
  Claim C10. If the record under the key is not a mapping, \<^verbatim>\<open>_get_price\<close> raises nothing
  for it and goes on to the fallback keys: with no fallback key it returns None, and
  with fallback keys \<open>k # ks\<close> it returns what the lookup of \<open>k\<close> with fallbacks \<open>ks\<close>
  returns; a fallback key whose record is not a mapping is skipped in the same way. If
  no candidate key has a record that is a mapping with a usable field (a value other
  than None or zero under the field or under \<^verbatim>\<open>price\<close>), the result is None.
\<close>

theorem C10_non_mapping_record_skipped:
  assumes "smm c = PDict m" and "map_of m key = Some v" and "\<not> isinstance_dict v"
  shows "get_price pf c key field [] = Inr None
       \<and> get_price pf c key field (k # ks) = get_price pf c k field ks
       \<and> (map_of m k = Some v' \<and> \<not> isinstance_dict v'
            \<longrightarrow> get_price pf c key field (k # ks) = get_price pf c key field ks)
       \<and> ((\<forall>k' \<in> set ks. no_usable_field (record_at m k') field)
            \<longrightarrow> get_price pf c key field ks = Inr None)"
proof -
  from assms(2) have rec: "record_at m key = v" by (simp add: record_at_def)
  have skip: "get_price pf c key field fbs = fallback_loop pf c field fbs" for fbs
    by (simp add: get_price_def assms(1) py_get_smm rec attempt_non_dict [OF assms(3)])
  have a: "get_price pf c key field [] = Inr None" by (simp add: skip)
  have b: "get_price pf c key field (k # ks) = get_price pf c k field ks"
    by (simp add: skip) (simp add: get_price_def)
  have d: "get_price pf c key field ks = Inr None"
    if "\<forall>k' \<in> set ks. no_usable_field (record_at m k') field"
    using fallback_loop_no_usable [OF assms(1) that] by (simp add: skip)
  have e: "get_price pf c key field (k # ks) = get_price pf c key field ks"
    if "map_of m k = Some v'" "\<not> isinstance_dict v'"
  proof -
    from that(1) have "record_at m k = v'" by (simp add: record_at_def)
    then have "get_price pf c k field ks = fallback_loop pf c field ks"
      by (simp add: get_price_def assms(1) py_get_smm attempt_non_dict [OF that(2)])
    with b show ?thesis by (simp add: skip)
  qed
  from a b d e show ?thesis by blast
qed

theorem C10_non_mapping_record_skipped_witness:
  "smm bare_number_calculator = PDict bare_number_smm
   \<and> map_of bare_number_smm ''monazite_concentrate'' = Some (PFloat (750435 / 100))
   \<and> \<not> isinstance_dict (PFloat (750435 / 100))
   \<and> get_price no_parse bare_number_calculator ''monazite_concentrate'' ''price_avg'' []
       = Inr None
   \<and> get_price no_parse bare_number_calculator ''monazite_concentrate'' ''price_avg''
        [''monazite'', ''monazite_concentrate''] = Inr (Some 7500)
   \<and> no_usable_field (record_at bare_number_smm ''zircon_sand'') ''price_avg''
   \<and> no_usable_field (record_at bare_number_smm ''tin'') ''price_avg''
   \<and> get_price no_parse bare_number_calculator ''monazite_concentrate'' ''price_avg''
        [''zircon_sand'', ''tin''] = Inr None
   \<and> map_of bare_number_smm ''zircon_sand'' = Some (PInt 0)
   \<and> \<not> isinstance_dict (PInt 0)
   \<and> get_price no_parse bare_number_calculator ''monazite_concentrate'' ''price_avg''
        [''zircon_sand'', ''monazite''] = Inr (Some 7500)"
proof -
  have h1: "smm bare_number_calculator = PDict bare_number_smm" by simp
  have h2: "map_of bare_number_smm ''monazite_concentrate'' = Some (PFloat (750435 / 100))"
    by (simp add: bare_number_smm_def)
  have h3: "\<not> isinstance_dict (PFloat (750435 / 100))" by simp
  have h4: "\<forall>k' \<in> set [''zircon_sand'', ''tin''].
         no_usable_field (record_at bare_number_smm k') ''price_avg''"
    by (simp add: record_at_def bare_number_smm_def record_price_def py_or_def)
  have fb: "get_price no_parse bare_number_calculator ''monazite'' ''price_avg''
        [''monazite_concentrate''] = Inr (Some 7500)"
    by (simp add: lookup_defs bare_number_smm_def int_fits_small)
  from C10_non_mapping_record_skipped [OF h1 h2 h3, of no_parse "''price_avg''" "''monazite''"
         "[''monazite_concentrate'']" PNone]
  have w1: "get_price no_parse bare_number_calculator ''monazite_concentrate'' ''price_avg'' []
       = Inr None"
    and w2: "get_price no_parse bare_number_calculator ''monazite_concentrate'' ''price_avg''
        [''monazite'', ''monazite_concentrate''] = Inr (Some 7500)"
    using fb by simp_all
  from C10_non_mapping_record_skipped [OF h1 h2 h3, of no_parse "''price_avg''" "''zircon_sand''"
         "[''zircon_sand'', ''tin'']" PNone] h4
  have w3: "get_price no_parse bare_number_calculator ''monazite_concentrate'' ''price_avg''
        [''zircon_sand'', ''tin''] = Inr None"
    by blast
  from h4 have h5: "no_usable_field (record_at bare_number_smm ''zircon_sand'') ''price_avg''"
    and h6: "no_usable_field (record_at bare_number_smm ''tin'') ''price_avg''"
    by simp_all
  have h7: "map_of bare_number_smm ''zircon_sand'' = Some (PInt 0)"
    by (simp add: bare_number_smm_def)
  have h8: "\<not> isinstance_dict (PInt 0)" by simp
  have fb2: "get_price no_parse bare_number_calculator ''monazite_concentrate'' ''price_avg''
        [''monazite''] = Inr (Some 7500)"
    by (simp add: lookup_defs bare_number_smm_def int_fits_small)
  from C10_non_mapping_record_skipped [OF h1 h2 h3, of no_parse "''price_avg''" "''zircon_sand''"
         "[''monazite'']" "PInt 0"] h7 h8 fb2
  have w4: "get_price no_parse bare_number_calculator ''monazite_concentrate'' ''price_avg''
        [''zircon_sand'', ''monazite''] = Inr (Some 7500)"
    by metis
  from h1 h2 h3 h5 h6 h7 h8 w1 w2 w3 w4 show ?thesis by blast
qed

end
